theory Spec2Isabelle
  imports Complex_Main "HOL-Library.Word"
begin

section \<open>The Kafka client of the Grafana Kafka data source\<close>

text \<open>
  The package \<^verbatim>\<open>kafka_client\<close> is present in two revisions that declare the same names:
  \<^item> \<^verbatim>\<open>src/unnamed/part_000\<close>: \<^verbatim>\<open>TopicAssign\<close> reads the watermarks of the partition from its
    leader and starts at most \<^verbatim>\<open>maxEarliest\<close> messages behind the high watermark; the reader
    has no consumer group; \<^verbatim>\<open>Dispose\<close> tests the reader for nil; the dialer is built by the
    exported \<^verbatim>\<open>NewConnection\<close>. Its definitions carry the suffix \<open>_lookback\<close> where the two
    revisions differ.
  \<^item> \<^verbatim>\<open>src/pkg/kafka_client/client.go\<close>: \<^verbatim>\<open>TopicAssign\<close> calls \<^verbatim>\<open>consumerInitialize\<close> itself,
    maps \<^verbatim>\<open>earliest\<close> to \<^verbatim>\<open>kafka.FirstOffset\<close> and opens a reader in the consumer group
    \<^verbatim>\<open>kafka-datasource\<close>; \<^verbatim>\<open>Dispose\<close> closes the reader without a test. Its definitions
    carry the suffix \<open>_group\<close>.

  The library kafka-go and its SASL packages are not part of the repository. What they
  return is a parameter of the model (the record \<open>kafka_go\<close>, the answer of \<^verbatim>\<open>ReadMessage\<close>
  given to \<open>ConsumerPull\<close>, the ticks given to \<open>HealthCheck\<close>), and every call that reaches
  the broker or a reader is written to a list of events. The decoder \<^verbatim>\<open>json.Unmarshal\<close> of
  Go's standard library is embedded for the one type the package calls it at.
\<close>

subsection \<open>Machine integers\<close>

type_synonym int32 = "32 word"
type_synonym int64 = "64 word"

text \<open>\<^verbatim>\<open>const maxEarliest int64 = 100\<close>, \<^verbatim>\<open>const network = "tcp"\<close>,
  \<^verbatim>\<open>const consumerGroupID = "kafka-datasource"\<close>, \<^verbatim>\<open>const dialerTimeout = 10 * time.Second\<close>
  (in milliseconds here).\<close>

definition maxEarliest :: int64 where
  "maxEarliest = 100"

definition network :: string where
  "network = ''tcp''"

definition consumerGroupID :: string where
  "consumerGroupID = ''kafka-datasource''"

definition debugLogLevel :: string where
  "debugLogLevel = ''debug''"

definition errorLogLevel :: string where
  "errorLogLevel = ''error''"

definition dialerTimeout :: nat where
  "dialerTimeout = 10 * 1000"

subsection \<open>Errors and outcomes\<close>

text \<open>
  One constructor for each \<^verbatim>\<open>fmt.Errorf\<close> of the package, holding the error it wraps, and
  \<open>LibError\<close> for an error value that a library returned. The time-out of the health check
  wraps the variable \<^verbatim>\<open>err\<close>, which is nil until a dial has failed. The last two are the errors
  of \<^verbatim>\<open>encoding/json\<close>; an \<^verbatim>\<open>UnmarshalTypeError\<close> holds its field \<^verbatim>\<open>Value\<close>.
\<close>

datatype error =
    LibError string
  | UnsupportedMechanism string
  | UnableToGetSaslMechanism error
  | UnableToInitialize error
  | UnableToDialLeader error
  | UnableToReadOffsets error
  | UnableToSetOffset error
  | ErrorReadingMessage error
  | ErrorUnmarshalling error
  | HealthCheckTimedOut int32 "error option"
  | ErrorReadingPartitions error
  | SyntaxError
  | UnmarshalTypeError string

text \<open>
  A call of a Go function returns its results or panics (here: a method of kafka-go that
  is called on a nil pointer and dereferences it, or \<^verbatim>\<open>kafka.NewReader\<close> on a configuration
  it rejects). A returned \<^verbatim>\<open>error\<close> is an \<open>error option\<close>, nil being \<open>None\<close>.
\<close>

datatype 'a outcome = Returns 'a | Panics

subsection \<open>Values of the libraries\<close>

datatype scram_Algorithm = SHA256 | SHA512

datatype sasl_Mechanism =
    plain_Mechanism string string
  | scram_mechanism scram_Algorithm string string

text \<open>\<^verbatim>\<open>tls.Config\<close>: only the field the package sets, 0 being the zero value and
  \<open>0x0304\<close> the constant \<^verbatim>\<open>tls.VersionTLS13\<close>.\<close>

record tls_Config =
  MinVersion :: nat

definition VersionTLS13 :: nat where
  "VersionTLS13 = 0x0304"

record kafka_Dialer =
  Timeout :: nat
  SASLMechanism :: "sasl_Mechanism option"
  TLS :: "tls_Config option"

datatype kafka_Logger = noop | KAFKA_DEBUG | KAFKA_ERROR

record kafka_ReaderConfig =
  Brokers :: "string list"
  GroupID :: string
  Topic :: string
  Partition :: int
  ReaderDialer :: "kafka_Dialer option"
  StartOffset :: "int64 option"
  CommitInterval :: nat
  Logger :: kafka_Logger
  ErrorLogger :: kafka_Logger

text \<open>A reader as far as the package can tell: the configuration it was made from, the
  offset a successful \<^verbatim>\<open>SetOffset\<close> moved it to, and whether \<^verbatim>\<open>Close\<close> was called on it.\<close>

record kafka_Reader =
  config :: kafka_ReaderConfig
  offset :: "int64 option"
  closed :: bool

type_synonym kafka_Conn = nat


text \<open>
  What kafka-go answers, as a parameter: its two offset constants, the constructor of a
  SCRAM mechanism (which returns a mechanism or an error), \<^verbatim>\<open>Dialer.DialLeader\<close>,
  \<^verbatim>\<open>Conn.ReadOffsets\<close> (low and high watermark), the validation of a reader's
  configuration and \<^verbatim>\<open>Reader.SetOffset\<close>.
\<close>

record kafka_go =
  LastOffset :: int64
  FirstOffset :: int64
  scram_Mechanism :: "scram_Algorithm \<Rightarrow> string \<Rightarrow> string \<Rightarrow> error + sasl_Mechanism"
  DialLeader :: "kafka_Dialer \<Rightarrow> string \<Rightarrow> string \<Rightarrow> string \<Rightarrow> int \<Rightarrow> error + kafka_Conn"
  ReadOffsets :: "kafka_Conn \<Rightarrow> error + (int64 \<times> int64)"
  Validate :: "kafka_ReaderConfig \<Rightarrow> error option"
  SetOffset :: "kafka_Reader \<Rightarrow> int64 \<Rightarrow> error option"

datatype event =
    EvDialLeader kafka_Dialer string string string int
  | EvReadOffsets kafka_Conn
  | EvConnClose kafka_Conn
  | EvNewReader kafka_ReaderConfig
  | EvSetOffset int64
  | EvReaderClose
  | EvReadMessage
  | EvDial kafka_Dialer string string
  | EvReadPartitions kafka_Conn
  | EvTickerStop

subsection \<open>The client\<close>

record Options =
  BootstrapServers :: string
  SecurityProtocol :: string
  SaslMechanisms :: string
  SaslUsername :: string
  SaslPassword :: string
  HealthcheckTimeout :: int32
  LogLevel :: string

record KafkaClient =
  Dialer :: "kafka_Dialer option"
  Reader :: "kafka_Reader option"
  BootstrapServers :: string
  TimestampMode :: string
  SecurityProtocol :: string
  SaslMechanisms :: string
  SaslUsername :: string
  SaslPassword :: string
  LogLevel :: string
  HealthcheckTimeout :: int32


definition NewKafkaClient :: "Options \<Rightarrow> KafkaClient" where
  "NewKafkaClient options =
     \<lparr> Dialer = None,
       Reader = None,
       BootstrapServers = Options.BootstrapServers options,
       TimestampMode = [],
       SecurityProtocol = Options.SecurityProtocol options,
       SaslMechanisms = Options.SaslMechanisms options,
       SaslUsername = Options.SaslUsername options,
       SaslPassword = Options.SaslPassword options,
       LogLevel = Options.LogLevel options,
       HealthcheckTimeout = Options.HealthcheckTimeout options \<rparr>"

subsection \<open>Building the dialer\<close>

text \<open>\<^verbatim>\<open>getSASLMechanism\<close> (the same switch in both revisions). The two SCRAM cases return
  what \<^verbatim>\<open>scram.Mechanism\<close> returns, a mechanism or an error.\<close>

definition getSASLMechanism :: "kafka_go \<Rightarrow> KafkaClient \<Rightarrow> error + sasl_Mechanism option" where
  "getSASLMechanism k client =
     (if SaslMechanisms client = ''PLAIN'' then
        Inr (Some (plain_Mechanism (SaslUsername client) (SaslPassword client)))
      else if SaslMechanisms client = ''SCRAM-SHA-256'' then
        (case scram_Mechanism k SHA256 (SaslUsername client) (SaslPassword client) of
           Inl e \<Rightarrow> Inl e
         | Inr m \<Rightarrow> Inr (Some m))
      else if SaslMechanisms client = ''SCRAM-SHA-512'' then
        (case scram_Mechanism k SHA512 (SaslUsername client) (SaslPassword client) of
           Inl e \<Rightarrow> Inl e
         | Inr m \<Rightarrow> Inr (Some m))
      else if SaslMechanisms client = [] then Inr None
      else Inl (UnsupportedMechanism (SaslMechanisms client)))"

text \<open>\<^verbatim>\<open>NewConnection\<close> (part_000). The field \<^verbatim>\<open>client.Dialer\<close> is assigned only on the path
  that returns nil.\<close>

definition NewConnection :: "kafka_go \<Rightarrow> KafkaClient \<Rightarrow> error option \<times> KafkaClient" where
  "NewConnection k client =
     (case (if SaslMechanisms client \<noteq> [] then getSASLMechanism k client else Inr None) of
        Inl e \<Rightarrow> (Some (UnableToGetSaslMechanism e), client)
      | Inr mechanism \<Rightarrow>
          (None,
           client\<lparr>Dialer := Some \<lparr> Timeout = dialerTimeout,
                                   SASLMechanism = mechanism,
                                   TLS = (if SecurityProtocol client = ''SASL_SSL''
                                          then Some \<lparr> MinVersion = VersionTLS13 \<rparr>
                                          else None) \<rparr>\<rparr>))"

text \<open>\<^verbatim>\<open>consumerInitialize\<close> (client.go): the same, with the zero \<^verbatim>\<open>tls.Config\<close>.\<close>

definition consumerInitialize :: "kafka_go \<Rightarrow> KafkaClient \<Rightarrow> error option \<times> KafkaClient" where
  "consumerInitialize k client =
     (case (if SaslMechanisms client \<noteq> [] then getSASLMechanism k client else Inr None) of
        Inl e \<Rightarrow> (Some (UnableToGetSaslMechanism e), client)
      | Inr mechanism \<Rightarrow>
          (None,
           client\<lparr>Dialer := Some \<lparr> Timeout = 10 * 1000,
                                   SASLMechanism = mechanism,
                                   TLS = (if SecurityProtocol client = ''SASL_SSL''
                                          then Some \<lparr> MinVersion = 0 \<rparr>
                                          else None) \<rparr>\<rparr>))"

subsection \<open>Opening a reader\<close>

text \<open>\<^verbatim>\<open>strings.Split(s, ",")\<close> and \<^verbatim>\<open>strings.ToLower\<close> (on ASCII letters, which is all that
  can make a level equal to \<^verbatim>\<open>debug\<close> or \<^verbatim>\<open>error\<close>).\<close>

fun strings_Split :: "char \<Rightarrow> string \<Rightarrow> string list" where
  "strings_Split sep [] = [[]]"
| "strings_Split sep (x # xs) =
     (if x = sep then [] # strings_Split sep xs
      else (case strings_Split sep xs of
              [] \<Rightarrow> [[x]]
            | w # ws \<Rightarrow> (x # w) # ws))"

definition ToLower_char :: "char \<Rightarrow> char" where
  "ToLower_char c =
     (let n = (of_char c :: nat) in if 65 \<le> n \<and> n \<le> 90 then char_of (n + 32) else c)"

definition strings_ToLower :: "string \<Rightarrow> string" where
  "strings_ToLower s = map ToLower_char s"

definition getKafkaLogger :: "string \<Rightarrow> kafka_Logger \<times> kafka_Logger" where
  "getKafkaLogger level =
     (if strings_ToLower level = debugLogLevel then (KAFKA_DEBUG, KAFKA_ERROR)
      else if strings_ToLower level = errorLogLevel then (noop, KAFKA_ERROR)
      else (noop, noop))"

text \<open>\<^verbatim>\<open>kafka.NewReader\<close> panics when the library's validation rejects the configuration;
  the validation is a parameter.\<close>

definition kafka_NewReader ::
  "kafka_go \<Rightarrow> kafka_ReaderConfig \<Rightarrow> kafka_Reader outcome \<times> event list" where
  "kafka_NewReader k cfg =
     (case Validate k cfg of
        Some e \<Rightarrow> (Panics, [EvNewReader cfg])
      | None \<Rightarrow> (Returns \<lparr> config = cfg, offset = None, closed = False \<rparr>, [EvNewReader cfg]))"

text \<open>\<^verbatim>\<open>newReader\<close> of part_000: no group, no start offset.\<close>

definition newReader_lookback ::
  "kafka_go \<Rightarrow> KafkaClient \<Rightarrow> string \<Rightarrow> int \<Rightarrow>
     kafka_Reader outcome \<times> event list" where
  "newReader_lookback k client topic part =
     (case getKafkaLogger (LogLevel client) of
        (logger, errorLogger) \<Rightarrow>
          kafka_NewReader k
            \<lparr> Brokers = strings_Split (CHR '','') (BootstrapServers client),
              GroupID = [],
              Topic = topic,
              Partition = part,
              ReaderDialer = Dialer client,
              StartOffset = None,
              CommitInterval = 0,
              Logger = logger,
              ErrorLogger = errorLogger \<rparr>)"

text \<open>\<^verbatim>\<open>newReader\<close> of client.go: the consumer group and the start offset are set.\<close>

definition newReader_group ::
  "kafka_go \<Rightarrow> KafkaClient \<Rightarrow> string \<Rightarrow> int \<Rightarrow> int64 \<Rightarrow>
     kafka_Reader outcome \<times> event list" where
  "newReader_group k client topic part off =
     (case getKafkaLogger (LogLevel client) of
        (logger, errorLogger) \<Rightarrow>
          kafka_NewReader k
            \<lparr> Brokers = strings_Split (CHR '','') (BootstrapServers client),
              GroupID = consumerGroupID,
              Topic = topic,
              Partition = part,
              ReaderDialer = Dialer client,
              StartOffset = Some off,
              CommitInterval = 0,
              Logger = logger,
              ErrorLogger = errorLogger \<rparr>)"

subsection \<open>Assigning a topic and a partition\<close>

text \<open>
  The \<^verbatim>\<open>switch\<close> of \<^verbatim>\<open>TopicAssign\<close> in part_000 (lines 123 to 146). It ends the function
  with an error or a panic (\<open>Inl\<close>), or leaves a value in \<^verbatim>\<open>offset\<close> (\<open>Inr\<close>). The second
  component lists the calls made, the third the deferred \<^verbatim>\<open>conn.Close()\<close>, which runs when
  \<^verbatim>\<open>TopicAssign\<close> returns. \<^verbatim>\<open>DialLeader\<close> on a nil dialer dereferences it. The difference
  and the comparison are those of \<^verbatim>\<open>int64\<close>: the difference wraps, the comparison is signed.
\<close>

definition resolve_offset_lookback ::
  "kafka_go \<Rightarrow> KafkaClient \<Rightarrow> string \<Rightarrow> int32 \<Rightarrow> string \<Rightarrow>
     (error option outcome + int64) \<times> event list \<times> event list" where
  "resolve_offset_lookback k client topic part autoOffsetReset =
     (if autoOffsetReset = ''latest'' then (Inr (LastOffset k), [], [])
      else if autoOffsetReset = ''earliest'' then
        (case Dialer client of
           None \<Rightarrow> (Inl Panics, [], [])
         | Some d \<Rightarrow>
             (case DialLeader k d network (BootstrapServers client) topic (sint part) of
                Inl e \<Rightarrow>
                  (Inl (Returns (Some (UnableToDialLeader e))),
                   [EvDialLeader d network (BootstrapServers client) topic (sint part)], [])
              | Inr conn \<Rightarrow>
                  (case ReadOffsets k conn of
                     Inl e \<Rightarrow>
                       (Inl (Returns (Some (UnableToReadOffsets e))),
                        [EvDialLeader d network (BootstrapServers client) topic (sint part),
                         EvReadOffsets conn],
                        [EvConnClose conn])
                   | Inr (low, high) \<Rightarrow>
                       (Inr (if sint maxEarliest < sint (high - low)
                             then high - maxEarliest else low),
                        [EvDialLeader d network (BootstrapServers client) topic (sint part),
                         EvReadOffsets conn],
                        [EvConnClose conn]))))
      else (Inr (LastOffset k), [], []))"

text \<open>\<^verbatim>\<open>TopicAssign\<close> of part_000. The reader is stored in the client before \<^verbatim>\<open>SetOffset\<close> is
  called, so it stays there when \<^verbatim>\<open>SetOffset\<close> fails.\<close>

definition TopicAssign_lookback ::
  "kafka_go \<Rightarrow> KafkaClient \<Rightarrow> string \<Rightarrow> int32 \<Rightarrow> string \<Rightarrow> string \<Rightarrow>
     error option outcome \<times> KafkaClient \<times> event list" where
  "TopicAssign_lookback k client0 topic part autoOffsetReset timestampMode =
     (let client = client0\<lparr>TimestampMode := timestampMode\<rparr> in
      case resolve_offset_lookback k client topic part autoOffsetReset of
        (Inl out, evs, deferred) \<Rightarrow> (out, client, evs @ deferred)
      | (Inr off, evs, deferred) \<Rightarrow>
          (case newReader_lookback k client topic (sint part) of
             (Panics, evs') \<Rightarrow> (Panics, client, evs @ evs' @ deferred)
           | (Returns r, evs') \<Rightarrow>
               (case SetOffset k r off of
                  Some e \<Rightarrow>
                    (Returns (Some (UnableToSetOffset e)),
                     client\<lparr>Reader := Some r\<rparr>,
                     evs @ evs' @ [EvSetOffset off] @ deferred)
                | None \<Rightarrow>
                    (Returns None,
                     client\<lparr>Reader := Some (r\<lparr>offset := Some off\<rparr>)\<rparr>,
                     evs @ evs' @ [EvSetOffset off] @ deferred))))"

text \<open>The \<^verbatim>\<open>switch\<close> of \<^verbatim>\<open>TopicAssign\<close> in client.go: no call at all.\<close>

definition resolve_offset_group :: "kafka_go \<Rightarrow> string \<Rightarrow> int64" where
  "resolve_offset_group k autoOffsetReset =
     (if autoOffsetReset = ''latest'' then LastOffset k
      else if autoOffsetReset = ''earliest'' then FirstOffset k
      else LastOffset k)"

text \<open>\<^verbatim>\<open>TopicAssign\<close> of client.go.\<close>

definition TopicAssign_group ::
  "kafka_go \<Rightarrow> KafkaClient \<Rightarrow> string \<Rightarrow> int32 \<Rightarrow> string \<Rightarrow> string \<Rightarrow>
     error option outcome \<times> KafkaClient \<times> event list" where
  "TopicAssign_group k client0 topic part autoOffsetReset timestampMode =
     (let client = client0\<lparr>TimestampMode := timestampMode\<rparr> in
      case consumerInitialize k client of
        (Some e, client') \<Rightarrow> (Returns (Some (UnableToInitialize e)), client', [])
      | (None, client') \<Rightarrow>
          (case newReader_group k client' topic (sint part)
                  (resolve_offset_group k autoOffsetReset) of
             (Panics, evs) \<Rightarrow> (Panics, client', evs)
           | (Returns r, evs) \<Rightarrow> (Returns None, client'\<lparr>Reader := Some r\<rparr>, evs)))"

subsection \<open>Pulling a message\<close>


subsection \<open>Decoding the body\<close>

text \<open>
  \<^verbatim>\<open>json.Unmarshal(msg.Value, &message.Value)\<close> is the decoder of Go's standard library
  \<^verbatim>\<open>encoding/json\<close>, called on a pointer to a nil \<^verbatim>\<open>map[string]float64\<close>. It is embedded here
  for that target, after the library:
  \<^item> the scanner of \<^verbatim>\<open>scanner.go\<close>: a state for each of its step functions, with their names
    (the states that read the rest of \<^verbatim>\<open>true\<close>, \<^verbatim>\<open>false\<close> and \<^verbatim>\<open>null\<close> are one state that holds
    the bytes still to come, the states that read the four digits of a Unicode escape are
    one state that counts them), \<^verbatim>\<open>pushParseState\<close>, \<^verbatim>\<open>popParseState\<close> and the limit of the
    nesting;
  \<^item> \<^verbatim>\<open>unquoteBytes\<close> of \<^verbatim>\<open>decode.go\<close>, which gives a key its bytes;
  \<^item> the storing of \<^verbatim>\<open>decode.go\<close>: \<^verbatim>\<open>value\<close>, \<^verbatim>\<open>object\<close>, \<^verbatim>\<open>array\<close> and \<^verbatim>\<open>literalStore\<close> for a
    target of kind map with elements of kind \<^verbatim>\<open>float64\<close>.

  The library checks the whole input with the scanner (\<^verbatim>\<open>checkValid\<close>) and then scans it
  again to store; here one pass does both: the frames of the scanner's stack hold the
  members and the elements read so far, and the scanner returns the value it has read.
  The conversion of a number to \<^verbatim>\<open>float64\<close>, \<^verbatim>\<open>strconv.ParseFloat\<close>, is a parameter: it returns a
  value, or nothing for its range error.
\<close>

datatype json =
    JNull
  | JBool bool
  | JNumber string
  | JString string
  | JArray "json list"
  | JObject "(string \<times> json) list"

datatype scan_state =
    stateBeginValue
  | stateBeginValueOrEmpty
  | stateBeginString
  | stateBeginStringOrEmpty
  | stateEndValue
  | stateEndTop
  | stateInString
  | stateInStringEsc
  | stateInStringEscU nat
  | stateNeg
  | state1
  | state0
  | stateDot
  | stateDot0
  | stateE
  | stateESign
  | stateE0
  | stateLiteral string json

datatype parse_frame =
    parseObjectKey "(string \<times> json) list" "string option"
  | parseObjectValue "(string \<times> json) list" "string option"
  | parseArrayValue "json list"

record scanner =
  step :: scan_state
  parseState :: "parse_frame list"
  literal :: string
  endTop :: "json option"

definition maxNestingDepth :: nat where
  "maxNestingDepth = 10000"

definition isSpace :: "char \<Rightarrow> bool" where
  "isSpace c = (c = CHR '' '' \<or> c = CHR 0x09 \<or> c = CHR 0x0D \<or> c = CHR 0x0A)"

definition is_digit :: "char \<Rightarrow> bool" where
  "is_digit c = (48 \<le> (of_char c :: nat) \<and> (of_char c :: nat) \<le> 57)"

definition is_digit19 :: "char \<Rightarrow> bool" where
  "is_digit19 c = (49 \<le> (of_char c :: nat) \<and> (of_char c :: nat) \<le> 57)"

definition hex_value :: "char \<Rightarrow> nat option" where
  "hex_value c =
     (let n = (of_char c :: nat) in
      if 48 \<le> n \<and> n \<le> 57 then Some (n - 48)
      else if 97 \<le> n \<and> n \<le> 102 then Some (n - 87)
      else if 65 \<le> n \<and> n \<le> 70 then Some (n - 55)
      else None)"

text \<open>\<^verbatim>\<open>utf8.DecodeRune\<close> accepts the well-formed sequences of one to four bytes; \<^verbatim>\<open>unquoteBytes\<close>
  copies them and writes U+FFFD for every other byte. \<^verbatim>\<open>utf8_size\<close> is the length of the
  well-formed sequence at the head of the bytes, 0 when there is none; the first argument
  of \<^verbatim>\<open>utf8_repair\<close> counts the bytes still to copy of a sequence already accepted.\<close>

definition RuneError :: string where
  "RuneError = [CHR 0xEF, CHR 0xBF, CHR 0xBD]"

definition in_range :: "nat \<Rightarrow> nat \<Rightarrow> char \<Rightarrow> bool" where
  "in_range lo hi c = (lo \<le> (of_char c :: nat) \<and> (of_char c :: nat) \<le> hi)"

definition utf8_size :: "string \<Rightarrow> nat" where
  "utf8_size s =
     (case s of
        [] \<Rightarrow> 0
      | b0 # s1 \<Rightarrow>
          if in_range 0x00 0x7F b0 then 1
          else if in_range 0xC2 0xDF b0 then
            (case s1 of b1 # s2 \<Rightarrow> if in_range 0x80 0xBF b1 then 2 else 0 | [] \<Rightarrow> 0)
          else if in_range 0xE0 0xEF b0 then
            (case s1 of
               b1 # b2 # s3 \<Rightarrow>
                 if in_range (if b0 = CHR 0xE0 then 0xA0 else 0x80)
                             (if b0 = CHR 0xED then 0x9F else 0xBF) b1
                    \<and> in_range 0x80 0xBF b2
                 then 3 else 0
             | _ \<Rightarrow> 0)
          else if in_range 0xF0 0xF4 b0 then
            (case s1 of
               b1 # b2 # b3 # s4 \<Rightarrow>
                 if in_range (if b0 = CHR 0xF0 then 0x90 else 0x80)
                             (if b0 = CHR 0xF4 then 0x8F else 0xBF) b1
                    \<and> in_range 0x80 0xBF b2 \<and> in_range 0x80 0xBF b3
                 then 4 else 0
             | _ \<Rightarrow> 0)
          else 0)"

fun utf8_repair :: "nat \<Rightarrow> string \<Rightarrow> string" where
  "utf8_repair k [] = []"
| "utf8_repair (Suc k) (c # cs) = c # utf8_repair k cs"
| "utf8_repair 0 (c # cs) =
     (if utf8_size (c # cs) = 0 then RuneError @ utf8_repair 0 cs
      else c # utf8_repair (utf8_size (c # cs) - 1) cs)"

definition EncodeRune :: "nat \<Rightarrow> string" where
  "EncodeRune r =
     (if r < 0x80 then [char_of r]
      else if r < 0x800 then [char_of (0xC0 + r div 64), char_of (0x80 + r mod 64)]
      else if 0xD800 \<le> r \<and> r < 0xE000 \<or> 0x10FFFF < r then RuneError
      else if r < 0x10000 then
        [char_of (0xE0 + r div 4096), char_of (0x80 + r div 64 mod 64), char_of (0x80 + r mod 64)]
      else
        [char_of (0xF0 + r div 262144), char_of (0x80 + r div 4096 mod 64),
         char_of (0x80 + r div 64 mod 64), char_of (0x80 + r mod 64)])"

definition getu4 :: "string \<Rightarrow> nat option" where
  "getu4 s =
     (case s of
        b # u # h1 # h2 # h3 # h4 # rest \<Rightarrow>
          if b = CHR 0x5C \<and> u = CHR ''u'' then
            (case (hex_value h1, hex_value h2, hex_value h3, hex_value h4) of
               (Some a, Some b, Some c, Some d) \<Rightarrow> Some (((a * 16 + b) * 16 + c) * 16 + d)
             | _ \<Rightarrow> None)
          else None
      | _ \<Rightarrow> None)"

fun unescape :: "string \<Rightarrow> string" where
  "unescape [] = []"
| "unescape (c # cs) =
     (if c \<noteq> CHR 0x5C then c # unescape cs
      else
        (case cs of
           [] \<Rightarrow> []
         | e # rest \<Rightarrow>
             if e = CHR ''u'' then
               (case rest of
                  h1 # h2 # h3 # h4 # rest1 \<Rightarrow>
                    (case getu4 (c # cs) of
                       None \<Rightarrow> []
                     | Some rr \<Rightarrow>
                         if 0xD800 \<le> rr \<and> rr < 0xE000 then
                           (case rest1 of
                              b # u # l1 # l2 # l3 # l4 # rest2 \<Rightarrow>
                                (case getu4 rest1 of
                                   Some rr1 \<Rightarrow>
                                     if rr < 0xDC00 \<and> 0xDC00 \<le> rr1 \<and> rr1 < 0xE000 then
                                       EncodeRune ((rr - 0xD800) * 1024 + (rr1 - 0xDC00) + 0x10000)
                                       @ unescape rest2
                                     else RuneError @ unescape rest1
                                 | None \<Rightarrow> RuneError @ unescape rest1)
                            | _ \<Rightarrow> RuneError @ unescape rest1)
                         else EncodeRune rr @ unescape rest1)
                | _ \<Rightarrow> [])
             else
               (if e = CHR ''b'' then CHR 0x08
                else if e = CHR ''f'' then CHR 0x0C
                else if e = CHR ''n'' then CHR 0x0A
                else if e = CHR ''r'' then CHR 0x0D
                else if e = CHR ''t'' then CHR 0x09
                else e) # unescape rest))"

definition unquoteBytes :: "string \<Rightarrow> string" where
  "unquoteBytes raw = unescape (utf8_repair 0 raw)"

text \<open>The scanner. \<^verbatim>\<open>value_read\<close> is what the end of a value does to the stack: the value
  is the result at the top level, the key or the value of a member in an object, an element
  in an array. A number ends at the first byte that cannot continue it, which is then read
  as the byte after a value.\<close>

definition value_read :: "scanner \<Rightarrow> json \<Rightarrow> scanner option" where
  "value_read s v =
     (case parseState s of
        [] \<Rightarrow> Some (s\<lparr>step := stateEndValue, literal := [], endTop := Some v\<rparr>)
      | parseObjectKey ms None # st \<Rightarrow>
          (case v of
             JString k \<Rightarrow>
               Some (s\<lparr>step := stateEndValue, literal := [],
                       parseState := parseObjectKey ms (Some k) # st\<rparr>)
           | _ \<Rightarrow> None)
      | parseObjectKey ms (Some k) # st \<Rightarrow> None
      | parseObjectValue ms (Some k) # st \<Rightarrow>
          Some (s\<lparr>step := stateEndValue, literal := [],
                  parseState := parseObjectValue (ms @ [(k, v)]) None # st\<rparr>)
      | parseObjectValue ms None # st \<Rightarrow> None
      | parseArrayValue es # st \<Rightarrow>
          Some (s\<lparr>step := stateEndValue, literal := [],
                  parseState := parseArrayValue (es @ [v]) # st\<rparr>))"

definition popParseState :: "scanner \<Rightarrow> parse_frame list \<Rightarrow> json \<Rightarrow> scanner option" where
  "popParseState s st v =
     (case value_read (s\<lparr>parseState := st\<rparr>) v of
        None \<Rightarrow> None
      | Some s' \<Rightarrow> Some (if st = [] then s'\<lparr>step := stateEndTop\<rparr> else s'))"

definition pushParseState :: "scanner \<Rightarrow> parse_frame \<Rightarrow> scan_state \<Rightarrow> scanner option" where
  "pushParseState s frame next =
     (if length (parseState s) + 1 \<le> maxNestingDepth
      then Some (s\<lparr>step := next, parseState := frame # parseState s\<rparr>)
      else None)"

definition do_stateEndTop :: "scanner \<Rightarrow> char \<Rightarrow> scanner option" where
  "do_stateEndTop s c = (if isSpace c then Some (s\<lparr>step := stateEndTop\<rparr>) else None)"

definition do_stateEndValue :: "scanner \<Rightarrow> char \<Rightarrow> scanner option" where
  "do_stateEndValue s c =
     (case parseState s of
        [] \<Rightarrow> do_stateEndTop s c
      | frame # st \<Rightarrow>
          if isSpace c then Some (s\<lparr>step := stateEndValue\<rparr>)
          else
            (case frame of
               parseObjectKey ms kopt \<Rightarrow>
                 if c = CHR '':'' \<and> kopt \<noteq> None
                 then Some (s\<lparr>step := stateBeginValue, parseState := parseObjectValue ms kopt # st\<rparr>)
                 else None
             | parseObjectValue ms kopt \<Rightarrow>
                 if c = CHR '','' \<and> kopt = None
                 then Some (s\<lparr>step := stateBeginString, parseState := parseObjectKey ms None # st\<rparr>)
                 else if c = CHR ''}'' \<and> kopt = None then popParseState s st (JObject ms)
                 else None
             | parseArrayValue es \<Rightarrow>
                 if c = CHR '','' then Some (s\<lparr>step := stateBeginValue\<rparr>)
                 else if c = CHR '']'' then popParseState s st (JArray es)
                 else None))"

definition do_stateBeginValue :: "scanner \<Rightarrow> char \<Rightarrow> scanner option" where
  "do_stateBeginValue s c =
     (if isSpace c then Some s
      else if c = CHR ''{'' then pushParseState s (parseObjectKey [] None) stateBeginStringOrEmpty
      else if c = CHR ''['' then pushParseState s (parseArrayValue []) stateBeginValueOrEmpty
      else if c = CHR 0x22 then Some (s\<lparr>step := stateInString, literal := []\<rparr>)
      else if c = CHR ''-'' then Some (s\<lparr>step := stateNeg, literal := [c]\<rparr>)
      else if c = CHR ''0'' then Some (s\<lparr>step := state0, literal := [c]\<rparr>)
      else if c = CHR ''t'' then Some (s\<lparr>step := stateLiteral ''rue'' (JBool True)\<rparr>)
      else if c = CHR ''f'' then Some (s\<lparr>step := stateLiteral ''alse'' (JBool False)\<rparr>)
      else if c = CHR ''n'' then Some (s\<lparr>step := stateLiteral ''ull'' JNull\<rparr>)
      else if is_digit19 c then Some (s\<lparr>step := state1, literal := [c]\<rparr>)
      else None)"

definition do_stateBeginValueOrEmpty :: "scanner \<Rightarrow> char \<Rightarrow> scanner option" where
  "do_stateBeginValueOrEmpty s c =
     (if isSpace c then Some s
      else if c = CHR '']'' then do_stateEndValue s c
      else do_stateBeginValue s c)"

definition do_stateBeginString :: "scanner \<Rightarrow> char \<Rightarrow> scanner option" where
  "do_stateBeginString s c =
     (if isSpace c then Some s
      else if c = CHR 0x22 then Some (s\<lparr>step := stateInString, literal := []\<rparr>)
      else None)"

definition do_stateBeginStringOrEmpty :: "scanner \<Rightarrow> char \<Rightarrow> scanner option" where
  "do_stateBeginStringOrEmpty s c =
     (if isSpace c then Some s
      else if c = CHR ''}'' then
        (case parseState s of
           parseObjectKey ms kopt # st \<Rightarrow>
             do_stateEndValue (s\<lparr>parseState := parseObjectValue ms kopt # st\<rparr>) c
         | _ \<Rightarrow> None)
      else do_stateBeginString s c)"

definition do_stateInString :: "scanner \<Rightarrow> char \<Rightarrow> scanner option" where
  "do_stateInString s c =
     (if c = CHR 0x22 then value_read s (JString (unquoteBytes (literal s)))
      else if c = CHR 0x5C then Some (s\<lparr>step := stateInStringEsc, literal := literal s @ [c]\<rparr>)
      else if (of_char c :: nat) < 0x20 then None
      else Some (s\<lparr>literal := literal s @ [c]\<rparr>))"

definition do_stateInStringEsc :: "scanner \<Rightarrow> char \<Rightarrow> scanner option" where
  "do_stateInStringEsc s c =
     (if c \<in> set ''bfnrt'' \<or> c = CHR 0x5C \<or> c = CHR ''/'' \<or> c = CHR 0x22
      then Some (s\<lparr>step := stateInString, literal := literal s @ [c]\<rparr>)
      else if c = CHR ''u'' then Some (s\<lparr>step := stateInStringEscU 0, literal := literal s @ [c]\<rparr>)
      else None)"

definition do_stateInStringEscU :: "nat \<Rightarrow> scanner \<Rightarrow> char \<Rightarrow> scanner option" where
  "do_stateInStringEscU n s c =
     (if hex_value c \<noteq> None
      then Some (s\<lparr>step := (if n < 3 then stateInStringEscU (n + 1) else stateInString),
                   literal := literal s @ [c]\<rparr>)
      else None)"

definition number_read :: "scanner \<Rightarrow> char \<Rightarrow> scanner option" where
  "number_read s c =
     (case value_read s (JNumber (literal s)) of
        None \<Rightarrow> None
      | Some s' \<Rightarrow> do_stateEndValue s' c)"

definition do_stateNeg :: "scanner \<Rightarrow> char \<Rightarrow> scanner option" where
  "do_stateNeg s c =
     (if c = CHR ''0'' then Some (s\<lparr>step := state0, literal := literal s @ [c]\<rparr>)
      else if is_digit19 c then Some (s\<lparr>step := state1, literal := literal s @ [c]\<rparr>)
      else None)"

definition do_state0 :: "scanner \<Rightarrow> char \<Rightarrow> scanner option" where
  "do_state0 s c =
     (if c = CHR ''.'' then Some (s\<lparr>step := stateDot, literal := literal s @ [c]\<rparr>)
      else if c = CHR ''e'' \<or> c = CHR ''E'' then Some (s\<lparr>step := stateE, literal := literal s @ [c]\<rparr>)
      else number_read s c)"

definition do_state1 :: "scanner \<Rightarrow> char \<Rightarrow> scanner option" where
  "do_state1 s c =
     (if is_digit c then Some (s\<lparr>step := state1, literal := literal s @ [c]\<rparr>)
      else do_state0 s c)"

definition do_stateDot :: "scanner \<Rightarrow> char \<Rightarrow> scanner option" where
  "do_stateDot s c =
     (if is_digit c then Some (s\<lparr>step := stateDot0, literal := literal s @ [c]\<rparr>) else None)"

definition do_stateDot0 :: "scanner \<Rightarrow> char \<Rightarrow> scanner option" where
  "do_stateDot0 s c =
     (if is_digit c then Some (s\<lparr>literal := literal s @ [c]\<rparr>)
      else if c = CHR ''e'' \<or> c = CHR ''E'' then Some (s\<lparr>step := stateE, literal := literal s @ [c]\<rparr>)
      else number_read s c)"

definition do_stateESign :: "scanner \<Rightarrow> char \<Rightarrow> scanner option" where
  "do_stateESign s c =
     (if is_digit c then Some (s\<lparr>step := stateE0, literal := literal s @ [c]\<rparr>) else None)"

definition do_stateE :: "scanner \<Rightarrow> char \<Rightarrow> scanner option" where
  "do_stateE s c =
     (if c = CHR ''+'' \<or> c = CHR ''-'' then Some (s\<lparr>step := stateESign, literal := literal s @ [c]\<rparr>)
      else do_stateESign s c)"

definition do_stateE0 :: "scanner \<Rightarrow> char \<Rightarrow> scanner option" where
  "do_stateE0 s c =
     (if is_digit c then Some (s\<lparr>literal := literal s @ [c]\<rparr>) else number_read s c)"

definition do_stateLiteral :: "string \<Rightarrow> json \<Rightarrow> scanner \<Rightarrow> char \<Rightarrow> scanner option" where
  "do_stateLiteral rest v s c =
     (case rest of
        [] \<Rightarrow> None
      | x # xs \<Rightarrow>
          if c \<noteq> x then None
          else if xs = [] then value_read s v
          else Some (s\<lparr>step := stateLiteral xs v\<rparr>))"

definition scan_step :: "scanner \<Rightarrow> char \<Rightarrow> scanner option" where
  "scan_step s c =
     (case step s of
        stateBeginValue \<Rightarrow> do_stateBeginValue s c
      | stateBeginValueOrEmpty \<Rightarrow> do_stateBeginValueOrEmpty s c
      | stateBeginString \<Rightarrow> do_stateBeginString s c
      | stateBeginStringOrEmpty \<Rightarrow> do_stateBeginStringOrEmpty s c
      | stateEndValue \<Rightarrow> do_stateEndValue s c
      | stateEndTop \<Rightarrow> do_stateEndTop s c
      | stateInString \<Rightarrow> do_stateInString s c
      | stateInStringEsc \<Rightarrow> do_stateInStringEsc s c
      | stateInStringEscU n \<Rightarrow> do_stateInStringEscU n s c
      | stateNeg \<Rightarrow> do_stateNeg s c
      | state1 \<Rightarrow> do_state1 s c
      | state0 \<Rightarrow> do_state0 s c
      | stateDot \<Rightarrow> do_stateDot s c
      | stateDot0 \<Rightarrow> do_stateDot0 s c
      | stateE \<Rightarrow> do_stateE s c
      | stateESign \<Rightarrow> do_stateESign s c
      | stateE0 \<Rightarrow> do_stateE0 s c
      | stateLiteral rest v \<Rightarrow> do_stateLiteral rest v s c)"

fun scan_bytes :: "scanner \<Rightarrow> string \<Rightarrow> scanner option" where
  "scan_bytes s [] = Some s"
| "scan_bytes s (c # cs) =
     (case scan_step s c of None \<Rightarrow> None | Some s' \<Rightarrow> scan_bytes s' cs)"

definition scan_eof :: "scanner \<Rightarrow> json option" where
  "scan_eof s =
     (case scan_step s (CHR '' '') of
        None \<Rightarrow> None
      | Some s' \<Rightarrow> (if step s' = stateEndTop then endTop s' else None))"

definition json_scan :: "string \<Rightarrow> json option" where
  "json_scan data =
     (case scan_bytes \<lparr> step = stateBeginValue, parseState = [], literal = [], endTop = None \<rparr> data of
        None \<Rightarrow> None
      | Some s \<Rightarrow> scan_eof s)"





subsection \<open>Disposing of the reader\<close>

text \<open>\<^verbatim>\<open>Reader.Close\<close> of kafka-go marks the reader closed and may be called again on a
  closed reader; the package drops what it returns. On a nil reader it dereferences nil.\<close>

definition Reader_Close :: "kafka_Reader \<Rightarrow> kafka_Reader" where
  "Reader_Close r = r\<lparr>closed := True\<rparr>"

text \<open>\<^verbatim>\<open>Dispose\<close> of part_000.\<close>

definition Dispose_lookback :: "KafkaClient \<Rightarrow> unit outcome \<times> KafkaClient \<times> event list" where
  "Dispose_lookback client =
     (case Reader client of
        Some r \<Rightarrow> (Returns (), client\<lparr>Reader := Some (Reader_Close r)\<rparr>, [EvReaderClose])
      | None \<Rightarrow> (Returns (), client, []))"

text \<open>\<^verbatim>\<open>Dispose\<close> of client.go.\<close>

definition Dispose_group :: "KafkaClient \<Rightarrow> unit outcome \<times> KafkaClient \<times> event list" where
  "Dispose_group client =
     (case Reader client of
        Some r \<Rightarrow> (Returns (), client\<lparr>Reader := Some (Reader_Close r)\<rparr>, [EvReaderClose])
      | None \<Rightarrow> (Panics, client, []))"

subsection \<open>The health check\<close>

text \<open>
  The loop of \<^verbatim>\<open>HealthCheck\<close> waits in a \<^verbatim>\<open>select\<close> on two channels: the timer
  \<^verbatim>\<open>time.After(HealthcheckTimeout ms)\<close> and the ticker of 200 ms. A run is given by the ticks
  the ticker delivers, in order. For each tick: by how many milliseconds it comes after the
  earliest moment the ticker may deliver it (\<open>late\<close>), how long the dial and the listing that
  it starts keep the loop busy (\<open>took\<close>), which case the \<^verbatim>\<open>select\<close> takes when both channels
  are ready (\<open>tie_tick\<close>: Go chooses at random), what \<^verbatim>\<open>Dialer.Dial\<close> returns and what
  \<^verbatim>\<open>Conn.ReadPartitions\<close> returns as its error. After the last tick of the list the timer is
  the next to fire.

  The clock counts milliseconds from the creation of the timer and the ticker, and the loop
  is entered at 0. The tick number \<open>n + 1\<close> is in its channel no earlier than
  \<open>200 * (n + 1)\<close>; the timer's channel is ready from the time-out on, at once when the
  time-out is zero or negative. A \<^verbatim>\<open>select\<close> entered at \<open>now\<close> takes the case that is ready
  first.
\<close>

record tick =
  late :: nat
  took :: nat
  tie_tick :: bool
  dial :: "error + kafka_Conn"
  readPartitions :: "error option"

definition tick_ready :: "nat \<Rightarrow> nat \<Rightarrow> tick \<Rightarrow> nat" where
  "tick_ready now n t = max now (200 * (n + 1) + late t)"

definition timeout_ready :: "int32 \<Rightarrow> nat \<Rightarrow> nat" where
  "timeout_ready ms now = max now (nat (sint ms))"

definition select_tick :: "int32 \<Rightarrow> nat \<Rightarrow> nat \<Rightarrow> tick \<Rightarrow> bool" where
  "select_tick ms now n t =
     (tick_ready now n t < timeout_ready ms now
      \<or> (tick_ready now n t = timeout_ready ms now \<and> tie_tick t))"

text \<open>The \<^verbatim>\<open>for\<close> loop, with the variable \<^verbatim>\<open>err\<close>, the time \<open>now\<close> at which the \<^verbatim>\<open>select\<close> is
  entered and the number \<open>n\<close> of ticks received so far. The deferred calls are at the end
  of the events.\<close>

fun HealthCheck_loop ::
  "KafkaClient \<Rightarrow> nat \<Rightarrow> nat \<Rightarrow> error option \<Rightarrow> tick list \<Rightarrow> error option outcome \<times> event list" where
  "HealthCheck_loop client now n err [] =
     (Returns (Some (HealthCheckTimedOut (HealthcheckTimeout client) err)), [EvTickerStop])"
| "HealthCheck_loop client now n err (t # ts) =
     (if select_tick (HealthcheckTimeout client) now n t then
        (case Dialer client of
           None \<Rightarrow> (Panics, [EvTickerStop])
         | Some d \<Rightarrow>
             (case dial t of
                Inl e \<Rightarrow>
                  (case HealthCheck_loop client (tick_ready now n t + took t) (n + 1) (Some e) ts of
                     (out, evs) \<Rightarrow> (out, EvDial d network (BootstrapServers client) # evs))
              | Inr conn \<Rightarrow>
                  (case readPartitions t of
                     Some e \<Rightarrow>
                       (Returns (Some (ErrorReadingPartitions e)),
                        [EvDial d network (BootstrapServers client), EvReadPartitions conn,
                         EvConnClose conn, EvTickerStop])
                   | None \<Rightarrow>
                       (Returns None,
                        [EvDial d network (BootstrapServers client), EvReadPartitions conn,
                         EvConnClose conn, EvTickerStop]))))
      else (Returns (Some (HealthCheckTimedOut (HealthcheckTimeout client) err)), [EvTickerStop]))"

text \<open>\<^verbatim>\<open>HealthCheck\<close> of part_000.\<close>

definition HealthCheck_lookback ::
  "kafka_go \<Rightarrow> KafkaClient \<Rightarrow> tick list \<Rightarrow> error option outcome \<times> KafkaClient \<times> event list" where
  "HealthCheck_lookback k client ticks =
     (case NewConnection k client of
        (Some e, client') \<Rightarrow> (Returns (Some (UnableToInitialize e)), client', [])
      | (None, client') \<Rightarrow>
          (case HealthCheck_loop client' 0 0 None ticks of
             (out, evs) \<Rightarrow> (out, client', evs)))"

text \<open>\<^verbatim>\<open>HealthCheck\<close> of client.go.\<close>

definition HealthCheck_group ::
  "kafka_go \<Rightarrow> KafkaClient \<Rightarrow> tick list \<Rightarrow> error option outcome \<times> KafkaClient \<times> event list" where
  "HealthCheck_group k client ticks =
     (case consumerInitialize k client of
        (Some e, client') \<Rightarrow> (Returns (Some (UnableToInitialize e)), client', [])
      | (None, client') \<Rightarrow>
          (case HealthCheck_loop client' 0 0 None ticks of
             (out, evs) \<Rightarrow> (out, client', evs)))"

subsection \<open>Reading a run\<close>

text \<open>The value that a tick's \<^verbatim>\<open>conn, err = client.Dialer.Dial(...)\<close> leaves in \<^verbatim>\<open>err\<close>.\<close>

definition dial_error :: "tick \<Rightarrow> error option" where
  "dial_error t = (case dial t of Inl e \<Rightarrow> Some e | Inr conn \<Rightarrow> None)"

text \<open>The \<^verbatim>\<open>select\<close> takes the ticker's case for each tick of the list in turn, from a loop
  entered at \<open>now\<close> after \<open>n\<close> ticks, when each of these ticks fails to dial and so sends the
  loop back to the \<^verbatim>\<open>select\<close>.\<close>

fun ticks_taken :: "int32 \<Rightarrow> nat \<Rightarrow> nat \<Rightarrow> tick list \<Rightarrow> bool" where
  "ticks_taken ms now n [] = True"
| "ticks_taken ms now n (t # ts) =
     (select_tick ms now n t \<and> ticks_taken ms (tick_ready now n t + took t) (n + 1) ts)"

text \<open>The time at which the loop is back in the \<^verbatim>\<open>select\<close> after these ticks.\<close>

fun loop_time :: "nat \<Rightarrow> nat \<Rightarrow> tick list \<Rightarrow> nat" where
  "loop_time now n [] = now"
| "loop_time now n (t # ts) = loop_time (tick_ready now n t + took t) (n + 1) ts"

text \<open>The \<^verbatim>\<open>select\<close> entered at \<open>now\<close> after \<open>n\<close> ticks takes the timer's case: no further
  tick is delivered, or the \<^verbatim>\<open>select\<close> does not take the next one.\<close>

definition timer_first :: "int32 \<Rightarrow> nat \<Rightarrow> nat \<Rightarrow> tick list \<Rightarrow> bool" where
  "timer_first ms now n rest = (case rest of [] \<Rightarrow> True | t # ts \<Rightarrow> \<not> select_tick ms now n t)"

text \<open>What a list of events holds: the calls that reach the broker, the configurations
  given to \<^verbatim>\<open>kafka.NewReader\<close>, the offsets given to \<^verbatim>\<open>Reader.SetOffset\<close>.\<close>

fun is_broker_call :: "event \<Rightarrow> bool" where
  "is_broker_call (EvDialLeader d nw addr topic part) = True"
| "is_broker_call (EvReadOffsets conn) = True"
| "is_broker_call (EvDial d nw addr) = True"
| "is_broker_call (EvReadPartitions conn) = True"
| "is_broker_call EvReadMessage = True"
| "is_broker_call ev = False"

fun readers_opened :: "event list \<Rightarrow> kafka_ReaderConfig list" where
  "readers_opened [] = []"
| "readers_opened (EvNewReader cfg # evs) = cfg # readers_opened evs"
| "readers_opened (ev # evs) = readers_opened evs"

fun offsets_set :: "event list \<Rightarrow> int64 list" where
  "offsets_set [] = []"
| "offsets_set (EvSetOffset off # evs) = off # offsets_set evs"
| "offsets_set (ev # evs) = offsets_set evs"

subsection \<open>Concrete values for the examples\<close>

text \<open>A library that accepts everything: the offset constants of kafka-go, a partition
  whose watermarks are 5 and 500.\<close>

definition example_kafka :: kafka_go where
  "example_kafka =
     \<lparr> LastOffset = - 1,
       FirstOffset = - 2,
       scram_Mechanism = (\<lambda>alg user pass. Inr (scram_mechanism alg user pass)),
       DialLeader = (\<lambda>d nw addr topic part. Inr 7),
       ReadOffsets = (\<lambda>conn. Inr (5, 500)),
       Validate = (\<lambda>cfg. None),
       SetOffset = (\<lambda>r off. None) \<rparr>"

definition example_options :: Options where
  "example_options =
     \<lparr> Options.BootstrapServers = ''broker-1:9092,broker-2:9092'',
       Options.SecurityProtocol = ''SASL_SSL'',
       Options.SaslMechanisms = ''PLAIN'',
       Options.SaslUsername = ''grafana'',
       Options.SaslPassword = ''secret'',
       Options.HealthcheckTimeout = 1000,
       Options.LogLevel = ''error'' \<rparr>"

definition example_client :: KafkaClient where
  "example_client = NewKafkaClient example_options"

definition example_dialer :: kafka_Dialer where
  "example_dialer =
     \<lparr> Timeout = 10000,
       SASLMechanism = Some (plain_Mechanism ''grafana'' ''secret''),
       TLS = Some \<lparr> MinVersion = 0x0304 \<rparr> \<rparr>"

definition example_reader :: kafka_Reader where
  "example_reader =
     \<lparr> config = \<lparr> Brokers = [''broker-1:9092'', ''broker-2:9092''],
                  GroupID = [],
                  Topic = ''metrics'',
                  Partition = 0,
                  ReaderDialer = Some example_dialer,
                  StartOffset = None,
                  CommitInterval = 0,
                  Logger = noop,
                  ErrorLogger = KAFKA_ERROR \<rparr>,
       offset = Some 400,
       closed = False \<rparr>"

text \<open>A SCRAM constructor that refuses a user name holding a line feed, as the SASLprep of
  the library refuses control characters.\<close>

definition example_kafka_saslprep :: kafka_go where
  "example_kafka_saslprep =
     example_kafka
       \<lparr>scram_Mechanism :=
          (\<lambda>alg user pass.
             if CHR 0x0A \<in> set user then Inl (LibError ''SASLprep: prohibited character'')
             else Inr (scram_mechanism alg user pass))\<rparr>"




text \<open>Ticks that come on time: one whose dial fails after 30 ms, one whose dial succeeds
  and whose listing fails, one whose dial and listing succeed.\<close>

definition tick_refused :: tick where
  "tick_refused =
     \<lparr> late = 0, took = 30, tie_tick = False,
       dial = Inl (LibError ''connection refused''), readPartitions = None \<rparr>"

definition tick_unlisted :: tick where
  "tick_unlisted =
     \<lparr> late = 0, took = 30, tie_tick = False,
       dial = Inr 9, readPartitions = Some (LibError ''broken pipe'') \<rparr>"

definition tick_listed :: tick where
  "tick_listed =
     \<lparr> late = 0, took = 30, tie_tick = False, dial = Inr 9, readPartitions = None \<rparr>"

text \<open>A tick that comes on time and whose dial and listing succeed after five seconds.\<close>

definition tick_slow :: tick where
  "tick_slow =
     \<lparr> late = 0, took = 5000, tie_tick = False, dial = Inr 9, readPartitions = None \<rparr>"

section \<open>Properties\<close>

subsection \<open>Auxiliary facts: \<^verbatim>\<open>int64\<close>, events, the builders and the readers\<close>

lemma sint_sub_nonneg:
  fixes a b :: int64
  assumes "0 \<le> sint a" "0 \<le> sint b"
  shows "sint (a - b) = sint a - sint b"
proof -
  have "sint a < 2 ^ 63" "sint b < 2 ^ 63"
    using sint_lt [of a] sint_lt [of b] by simp_all
  with assms have "- (2 ^ 63) \<le> sint a - sint b" "sint a - sint b < 2 ^ 63"
    by simp_all
  then have "signed_take_bit 63 (sint a - sint b) = sint a - sint b"
    by (rule signed_take_bit_int_eq_self)
  then show ?thesis
    by (simp add: sint_word_ariths)
qed

lemma sint_maxEarliest: "sint maxEarliest = 100"
  by (simp add: maxEarliest_def)

lemma resolve_earliest:
  assumes "Dialer c = Some d"
    and "DialLeader k d network (BootstrapServers c) topic (sint p) = Inr conn"
    and "ReadOffsets k conn = Inr (low, high)"
  shows "resolve_offset_lookback k c topic p ''earliest'' =
           (Inr (if sint maxEarliest < sint (high - low) then high - maxEarliest else low),
            [EvDialLeader d network (BootstrapServers c) topic (sint p), EvReadOffsets conn],
            [EvConnClose conn])"
  using assms by (simp add: resolve_offset_lookback_def)

lemma lookback_window:
  fixes low high :: int64
  assumes "0 \<le> sint low" "0 \<le> sint high"
  shows "sint (if sint maxEarliest < sint (high - low) then high - maxEarliest else low) =
           (if sint high - sint low \<le> 100 then sint low else sint high - 100)"
proof -
  have d: "sint (high - low) = sint high - sint low"
    using assms by (simp add: sint_sub_nonneg)
  have "sint (high - maxEarliest) = sint high - 100"
    using sint_sub_nonneg [of high maxEarliest] assms by (simp add: sint_maxEarliest)
  with d show ?thesis
    by (simp add: sint_maxEarliest)
qed

lemma offsets_set_append: "offsets_set (xs @ ys) = offsets_set xs @ offsets_set ys"
  by (induction xs rule: offsets_set.induct) simp_all

lemma readers_opened_append: "readers_opened (xs @ ys) = readers_opened xs @ readers_opened ys"
  by (induction xs rule: readers_opened.induct) simp_all

lemma newReader_lookback_cases:
  "(\<exists>cfg. newReader_lookback k c topic part = (Panics, [EvNewReader cfg])
          \<and> ReaderDialer cfg = Dialer c)
   \<or> (\<exists>cfg. newReader_lookback k c topic part =
         (Returns \<lparr> config = cfg, offset = None, closed = False \<rparr>, [EvNewReader cfg])
        \<and> Topic cfg = topic \<and> Partition cfg = part \<and> ReaderDialer cfg = Dialer c
        \<and> GroupID cfg = [] \<and> StartOffset cfg = None)"
  by (simp add: newReader_lookback_def kafka_NewReader_def split: prod.splits option.splits)

lemma TopicAssign_lookback_resolved:
  assumes r: "resolve_offset_lookback k (c\<lparr>TimestampMode := tm\<rparr>) topic p pol = (Inr off, evs, deferred)"
    and e: "offsets_set evs = []" "offsets_set deferred = []"
  shows "(fst (TopicAssign_lookback k c topic p pol tm) \<noteq> Panics \<longrightarrow>
            offsets_set (snd (snd (TopicAssign_lookback k c topic p pol tm))) = [off])
         \<and> (fst (TopicAssign_lookback k c topic p pol tm) = Returns None \<longrightarrow>
              (\<exists>r. Reader (fst (snd (TopicAssign_lookback k c topic p pol tm))) = Some r
                   \<and> offset r = Some off \<and> Topic (config r) = topic
                   \<and> Partition (config r) = sint p))"
proof -
  let ?c = "c\<lparr>TimestampMode := tm\<rparr>"
  from newReader_lookback_cases [of k ?c topic "sint p"]
  consider cfg where "newReader_lookback k ?c topic (sint p) = (Panics, [EvNewReader cfg])"
    | cfg where "newReader_lookback k ?c topic (sint p) =
                   (Returns \<lparr> config = cfg, offset = None, closed = False \<rparr>, [EvNewReader cfg])"
                "Topic cfg = topic" "Partition cfg = sint p"
    by blast
  then show ?thesis
  proof cases
    case 1
    then show ?thesis
      by (simp add: TopicAssign_lookback_def Let_def r)
  next
    case 2
    then show ?thesis
      by (cases "SetOffset k \<lparr> config = cfg, offset = None, closed = False \<rparr> off")
         (simp_all add: TopicAssign_lookback_def Let_def r e offsets_set_append)
  qed
qed

lemma resolve_not_earliest:
  assumes "pol \<noteq> ''earliest''"
  shows "resolve_offset_lookback k c topic p pol = (Inr (LastOffset k), [], [])"
  using assms by (simp add: resolve_offset_lookback_def)

lemma resolve_dial_fails:
  assumes "Dialer c = Some d"
    and "DialLeader k d network (BootstrapServers c) topic (sint p) = Inl e"
  shows "resolve_offset_lookback k c topic p ''earliest'' =
           (Inl (Returns (Some (UnableToDialLeader e))),
            [EvDialLeader d network (BootstrapServers c) topic (sint p)], [])"
  using assms by (simp add: resolve_offset_lookback_def)

lemma resolve_read_fails:
  assumes "Dialer c = Some d"
    and "DialLeader k d network (BootstrapServers c) topic (sint p) = Inr conn"
    and "ReadOffsets k conn = Inl e"
  shows "resolve_offset_lookback k c topic p ''earliest'' =
           (Inl (Returns (Some (UnableToReadOffsets e))),
            [EvDialLeader d network (BootstrapServers c) topic (sint p), EvReadOffsets conn],
            [EvConnClose conn])"
  using assms by (simp add: resolve_offset_lookback_def)

lemma consumerInitialize_TimestampMode:
  "consumerInitialize k (c\<lparr>TimestampMode := tm\<rparr>) =
     (fst (consumerInitialize k c), (snd (consumerInitialize k c))\<lparr>TimestampMode := tm\<rparr>)"
  by (simp add: consumerInitialize_def getSASLMechanism_def split: sum.splits)

lemma consumerInitialize_keeps_TimestampMode:
  "TimestampMode (snd (consumerInitialize k c)) = TimestampMode c"
  by (simp add: consumerInitialize_def split: sum.splits)

lemma TopicAssign_lookback_TimestampMode:
  "TimestampMode (fst (snd (TopicAssign_lookback k c topic p pol tm))) = tm"
  by (simp add: TopicAssign_lookback_def Let_def split: prod.splits sum.splits outcome.splits option.splits)

lemma TopicAssign_group_TimestampMode:
  "TimestampMode (fst (snd (TopicAssign_group k c topic p pol tm))) = tm"
proof -
  have "TimestampMode (snd (consumerInitialize k (c\<lparr>TimestampMode := tm\<rparr>))) = tm"
    by (simp add: consumerInitialize_keeps_TimestampMode)
  then show ?thesis
    by (auto simp: TopicAssign_group_def Let_def split: prod.splits option.splits outcome.splits)
qed


lemmas example_defs =
  example_kafka_def example_client_def example_options_def example_dialer_def
  example_reader_def NewKafkaClient_def network_def maxEarliest_def debugLogLevel_def
  errorLogLevel_def consumerGroupID_def dialerTimeout_def VersionTLS13_def

lemmas assign_defs =
  TopicAssign_lookback_def TopicAssign_group_def resolve_offset_lookback_def
  resolve_offset_group_def newReader_lookback_def newReader_group_def kafka_NewReader_def
  getKafkaLogger_def strings_ToLower_def ToLower_char_def NewConnection_def
  consumerInitialize_def getSASLMechanism_def Let_def

lemma filter_broker_newReader_lookback:
  "filter is_broker_call (snd (newReader_lookback k c topic part)) = []"
  by (simp add: newReader_lookback_def kafka_NewReader_def split: prod.splits option.splits)

lemma newReader_group_cases:
  "(\<exists>cfg. newReader_group k c topic part off = (Panics, [EvNewReader cfg])
          \<and> StartOffset cfg = Some off \<and> ReaderDialer cfg = Dialer c)
   \<or> (\<exists>cfg. newReader_group k c topic part off =
         (Returns \<lparr> config = cfg, offset = None, closed = False \<rparr>, [EvNewReader cfg])
        \<and> Topic cfg = topic \<and> Partition cfg = part \<and> ReaderDialer cfg = Dialer c
        \<and> GroupID cfg = consumerGroupID \<and> StartOffset cfg = Some off)"
  by (simp add: newReader_group_def kafka_NewReader_def split: prod.splits option.splits)

lemma TopicAssign_lookback_no_call:
  assumes "pol \<noteq> ''earliest''"
  shows "filter is_broker_call (snd (snd (TopicAssign_lookback k c topic p pol tm))) = []"
  using filter_broker_newReader_lookback [of k "c\<lparr>TimestampMode := tm\<rparr>" topic "sint p"]
  by (auto simp: TopicAssign_lookback_def Let_def resolve_not_earliest [OF assms]
      split: prod.splits outcome.splits option.splits)

lemma TopicAssign_group_events:
  "snd (snd (TopicAssign_group k c topic p pol tm)) = []
   \<or> (\<exists>cfg. snd (snd (TopicAssign_group k c topic p pol tm)) = [EvNewReader cfg]
        \<and> StartOffset cfg = Some (resolve_offset_group k pol)
        \<and> ReaderDialer cfg = Dialer (snd (consumerInitialize k (c\<lparr>TimestampMode := tm\<rparr>))))"
proof (cases "consumerInitialize k (c\<lparr>TimestampMode := tm\<rparr>)")
  case (Pair r c')
  show ?thesis
  proof (cases r)
    case None
    with Pair newReader_group_cases [of k c' topic "sint p" "resolve_offset_group k pol"]
    show ?thesis
      by (auto simp: TopicAssign_group_def Let_def)
  next
    case (Some e)
    with Pair show ?thesis
      by (simp add: TopicAssign_group_def Let_def)
  qed
qed

lemma consumerInitialize_Dialer:
  "fst (consumerInitialize k (c\<lparr>Dialer := d0\<rparr>)) = fst (consumerInitialize k c)
   \<and> (fst (consumerInitialize k c) = None \<longrightarrow>
        snd (consumerInitialize k (c\<lparr>Dialer := d0\<rparr>)) = snd (consumerInitialize k c))"
  by (auto simp: consumerInitialize_def getSASLMechanism_def split: sum.splits)

lemma consumerInitialize_fails:
  assumes "fst (consumerInitialize k c) = Some e"
  shows "consumerInitialize k c = (Some e, c)"
  using assms by (auto simp: consumerInitialize_def split: sum.splits if_splits)

lemma TopicAssign_lookback_Dialer:
  "Dialer (fst (snd (TopicAssign_lookback k c topic p pol tm))) = Dialer c"
  by (simp add: TopicAssign_lookback_def Let_def
      split: prod.splits sum.splits outcome.splits option.splits)

lemma TopicAssign_lookback_opened:
  "\<forall>cfg \<in> set (readers_opened (snd (snd (TopicAssign_lookback k c topic p pol tm)))).
     ReaderDialer cfg = Dialer c"
proof -
  let ?c = "c\<lparr>TimestampMode := tm\<rparr>"
  obtain res evs deferred where r:
    "resolve_offset_lookback k ?c topic p pol = (res, evs, deferred)"
    by (cases "resolve_offset_lookback k ?c topic p pol") auto
  have e: "readers_opened evs = []" "readers_opened deferred = []"
    using r by (auto simp: resolve_offset_lookback_def
        split: if_splits option.splits sum.splits prod.splits)
  show ?thesis
  proof (cases res)
    case (Inl out)
    with r e show ?thesis
      by (simp add: TopicAssign_lookback_def Let_def readers_opened_append)
  next
    case (Inr off)
    from newReader_lookback_cases [of k ?c topic "sint p"] r e Inr show ?thesis
      by (auto simp: TopicAssign_lookback_def Let_def readers_opened_append
          split: option.splits)
  qed
qed

subsection \<open>The start offset of \<^verbatim>\<open>earliest\<close> in part_000\<close>

text \<open>
  C1. In part_000, when the policy is \<^verbatim>\<open>earliest\<close>, the leader was dialled and the
  watermarks \<open>low\<close> and \<open>high\<close> were read, the switch leaves in \<^verbatim>\<open>offset\<close> the value \<open>low\<close>
  when \<open>high - low \<le> 100\<close> and \<open>high - 100\<close> when \<open>high - low > 100\<close>: for all watermarks
  with the difference of \<^verbatim>\<open>int64\<close>, and with the difference of the integers when the
  watermarks are not negative, as offsets are. That value is the one \<^verbatim>\<open>SetOffset\<close> is called with
  whenever \<^verbatim>\<open>TopicAssign\<close> does not panic in \<^verbatim>\<open>kafka.NewReader\<close>, and the offset of the
  reader bound to the topic and the partition when \<^verbatim>\<open>TopicAssign\<close> returns nil.
\<close>

theorem TopicAssign_earliest_bounded_lookback:
  assumes "Dialer c = Some d"
    and "DialLeader k d network (BootstrapServers c) topic (sint p) = Inr conn"
    and "ReadOffsets k conn = Inr (low, high)"
  shows "\<exists>off. fst (resolve_offset_lookback k (c\<lparr>TimestampMode := tm\<rparr>) topic p ''earliest'') = Inr off
           \<and> off = (if sint (high - low) \<le> 100 then low else high - 100)
           \<and> (0 \<le> sint low \<and> 0 \<le> sint high \<longrightarrow>
                sint off = (if sint high - sint low \<le> 100 then sint low else sint high - 100))
           \<and> (fst (TopicAssign_lookback k c topic p ''earliest'' tm) \<noteq> Panics \<longrightarrow>
                offsets_set (snd (snd (TopicAssign_lookback k c topic p ''earliest'' tm))) = [off])
           \<and> (fst (TopicAssign_lookback k c topic p ''earliest'' tm) = Returns None \<longrightarrow>
                (\<exists>r. Reader (fst (snd (TopicAssign_lookback k c topic p ''earliest'' tm))) = Some r
                     \<and> offset r = Some off \<and> Topic (config r) = topic
                     \<and> Partition (config r) = sint p))"
proof -
  let ?c = "c\<lparr>TimestampMode := tm\<rparr>"
  let ?off = "if sint maxEarliest < sint (high - low) then high - maxEarliest else low"
  have r: "resolve_offset_lookback k ?c topic p ''earliest'' =
             (Inr ?off,
              [EvDialLeader d network (BootstrapServers c) topic (sint p), EvReadOffsets conn],
              [EvConnClose conn])"
    using resolve_earliest [of ?c d k topic p conn low high] assms by simp
  have v: "?off = (if sint (high - low) \<le> 100 then low else high - 100)"
    by (simp add: maxEarliest_def)
  have w: "sint ?off = (if sint high - sint low \<le> 100 then sint low else sint high - 100)"
    if "0 \<le> sint low" "0 \<le> sint high"
    using that by (rule lookback_window)
  have t: "(fst (TopicAssign_lookback k c topic p ''earliest'' tm) \<noteq> Panics \<longrightarrow>
                offsets_set (snd (snd (TopicAssign_lookback k c topic p ''earliest'' tm))) = [?off])
           \<and> (fst (TopicAssign_lookback k c topic p ''earliest'' tm) = Returns None \<longrightarrow>
                (\<exists>r. Reader (fst (snd (TopicAssign_lookback k c topic p ''earliest'' tm))) = Some r
                     \<and> offset r = Some ?off \<and> Topic (config r) = topic
                     \<and> Partition (config r) = sint p))"
    by (rule TopicAssign_lookback_resolved [OF r]) simp_all
  have "fst (resolve_offset_lookback k ?c topic p ''earliest'') = Inr ?off"
    by (simp add: r)
  with v w t show ?thesis
    by blast
qed

theorem TopicAssign_earliest_bounded_lookback_witness:
  "0 \<le> sint (5 :: int64) \<and> 0 \<le> sint (500 :: int64) \<and> 0 \<le> sint (50 :: int64)
   \<and> fst (resolve_offset_lookback example_kafka
            (example_client\<lparr>Dialer := Some example_dialer, TimestampMode := ''now''\<rparr>)
            ''metrics'' 0 ''earliest'') = Inr 400
   \<and> TopicAssign_lookback example_kafka (example_client\<lparr>Dialer := Some example_dialer\<rparr>)
        ''metrics'' 0 ''earliest'' ''now'' =
       (Returns None,
        example_client\<lparr>Dialer := Some example_dialer, TimestampMode := ''now'',
          Reader := Some example_reader\<rparr>,
        [EvDialLeader example_dialer ''tcp'' ''broker-1:9092,broker-2:9092'' ''metrics'' 0,
         EvReadOffsets 7, EvNewReader (config example_reader), EvSetOffset 400, EvConnClose 7])
   \<and> fst (resolve_offset_lookback (example_kafka\<lparr>ReadOffsets := \<lambda>conn. Inr (5, 50)\<rparr>)
            (example_client\<lparr>Dialer := Some example_dialer, TimestampMode := ''now''\<rparr>)
            ''metrics'' 0 ''earliest'') = Inr 5"
proof -
  let ?c = "example_client\<lparr>Dialer := Some example_dialer\<rparr>"
  let ?k = "example_kafka\<lparr>ReadOffsets := \<lambda>conn. Inr (5, 50)\<rparr>"
  have a: "Dialer ?c = Some example_dialer" by simp
  have b: "DialLeader example_kafka example_dialer network (BootstrapServers ?c) ''metrics''
             (sint (0 :: int32)) = Inr 7"
    "DialLeader ?k example_dialer network (BootstrapServers ?c) ''metrics''
             (sint (0 :: int32)) = Inr 7"
    by (simp_all add: example_kafka_def)
  have c: "ReadOffsets example_kafka 7 = Inr (5, 500)" "ReadOffsets ?k 7 = Inr (5, 50)"
    by (simp_all add: example_kafka_def)
  have d: "0 \<le> sint (5 :: int64)" "0 \<le> sint (500 :: int64)" "0 \<le> sint (50 :: int64)"
    by simp_all
  have e: "TopicAssign_lookback example_kafka ?c ''metrics'' 0 ''earliest'' ''now'' =
       (Returns None,
        example_client\<lparr>Dialer := Some example_dialer, TimestampMode := ''now'',
          Reader := Some example_reader\<rparr>,
        [EvDialLeader example_dialer ''tcp'' ''broker-1:9092,broker-2:9092'' ''metrics'' 0,
         EvReadOffsets 7, EvNewReader (config example_reader), EvSetOffset 400, EvConnClose 7])"
    by (simp add: assign_defs example_defs)
  from TopicAssign_earliest_bounded_lookback [OF a b(1) c(1), of "''now''"]
       TopicAssign_earliest_bounded_lookback [OF a b(2) c(2), of "''now''"] d e
  show ?thesis
    by auto
qed

subsection \<open>A failed resolution of \<^verbatim>\<open>earliest\<close> in part_000\<close>

text \<open>
  C5. In part_000, when the policy is \<^verbatim>\<open>earliest\<close> and \<^verbatim>\<open>DialLeader\<close> returns an error, or
  it returns a connection and \<^verbatim>\<open>ReadOffsets\<close> returns an error, \<^verbatim>\<open>TopicAssign\<close> returns that
  error wrapped (\<^verbatim>\<open>unable to dial leader\<close>, \<^verbatim>\<open>unable to read offsets\<close>: the two errors of the
  offset resolution), no reader is opened and no offset is set: the field \<^verbatim>\<open>Reader\<close> of the
  client is the one it had before the call.
\<close>

theorem TopicAssign_earliest_aborts_without_reader:
  assumes "Dialer c = Some d"
  shows "(DialLeader k d network (BootstrapServers c) topic (sint p) = Inl e \<longrightarrow>
            TopicAssign_lookback k c topic p ''earliest'' tm =
              (Returns (Some (UnableToDialLeader e)), c\<lparr>TimestampMode := tm\<rparr>,
               [EvDialLeader d network (BootstrapServers c) topic (sint p)]))
         \<and> (DialLeader k d network (BootstrapServers c) topic (sint p) = Inr conn
              \<and> ReadOffsets k conn = Inl e \<longrightarrow>
            TopicAssign_lookback k c topic p ''earliest'' tm =
              (Returns (Some (UnableToReadOffsets e)), c\<lparr>TimestampMode := tm\<rparr>,
               [EvDialLeader d network (BootstrapServers c) topic (sint p),
                EvReadOffsets conn, EvConnClose conn]))
         \<and> (DialLeader k d network (BootstrapServers c) topic (sint p) = Inl e
              \<or> DialLeader k d network (BootstrapServers c) topic (sint p) = Inr conn
                  \<and> ReadOffsets k conn = Inl e \<longrightarrow>
            Reader (fst (snd (TopicAssign_lookback k c topic p ''earliest'' tm))) = Reader c
            \<and> readers_opened (snd (snd (TopicAssign_lookback k c topic p ''earliest'' tm))) = []
            \<and> offsets_set (snd (snd (TopicAssign_lookback k c topic p ''earliest'' tm))) = [])"
proof -
  let ?c = "c\<lparr>TimestampMode := tm\<rparr>"
  have d: "Dialer ?c = Some d"
    using assms by simp
  have 1: "TopicAssign_lookback k c topic p ''earliest'' tm =
              (Returns (Some (UnableToDialLeader e)), ?c,
               [EvDialLeader d network (BootstrapServers c) topic (sint p)])"
    if "DialLeader k d network (BootstrapServers c) topic (sint p) = Inl e"
    using resolve_dial_fails [of ?c d k topic p e] d that
    by (simp add: TopicAssign_lookback_def Let_def)
  have 2: "TopicAssign_lookback k c topic p ''earliest'' tm =
              (Returns (Some (UnableToReadOffsets e)), ?c,
               [EvDialLeader d network (BootstrapServers c) topic (sint p),
                EvReadOffsets conn, EvConnClose conn])"
    if "DialLeader k d network (BootstrapServers c) topic (sint p) = Inr conn"
      and "ReadOffsets k conn = Inl e"
    using resolve_read_fails [of ?c d k topic p conn e] d that
    by (simp add: TopicAssign_lookback_def Let_def)
  show ?thesis
    using 1 2 by auto
qed

theorem TopicAssign_earliest_aborts_without_reader_witness:
  "TopicAssign_lookback
     (example_kafka\<lparr>DialLeader := \<lambda>d nw addr topic part. Inl (LibError ''no leader'')\<rparr>)
     (example_client\<lparr>Dialer := Some example_dialer, Reader := Some example_reader\<rparr>)
     ''metrics'' 0 ''earliest'' ''now'' =
     (Returns (Some (UnableToDialLeader (LibError ''no leader''))),
      example_client\<lparr>Dialer := Some example_dialer, Reader := Some example_reader,
        TimestampMode := ''now''\<rparr>,
      [EvDialLeader example_dialer ''tcp'' ''broker-1:9092,broker-2:9092'' ''metrics'' 0])
   \<and> TopicAssign_lookback
     (example_kafka\<lparr>ReadOffsets := \<lambda>conn. Inl (LibError ''i/o timeout'')\<rparr>)
     (example_client\<lparr>Dialer := Some example_dialer, Reader := Some example_reader\<rparr>)
     ''metrics'' 0 ''earliest'' ''now'' =
     (Returns (Some (UnableToReadOffsets (LibError ''i/o timeout''))),
      example_client\<lparr>Dialer := Some example_dialer, Reader := Some example_reader,
        TimestampMode := ''now''\<rparr>,
      [EvDialLeader example_dialer ''tcp'' ''broker-1:9092,broker-2:9092'' ''metrics'' 0,
       EvReadOffsets 7, EvConnClose 7])"
proof -
  let ?c = "example_client\<lparr>Dialer := Some example_dialer, Reader := Some example_reader\<rparr>"
  let ?k1 = "example_kafka\<lparr>DialLeader := \<lambda>d nw addr topic part. Inl (LibError ''no leader'')\<rparr>"
  let ?k2 = "example_kafka\<lparr>ReadOffsets := \<lambda>conn. Inl (LibError ''i/o timeout'')\<rparr>"
  have d: "Dialer ?c = Some example_dialer" by simp
  have 1: "DialLeader ?k1 example_dialer network (BootstrapServers ?c) ''metrics''
             (sint (0 :: int32)) = Inl (LibError ''no leader'')"
    by simp
  have 2: "DialLeader ?k2 example_dialer network (BootstrapServers ?c) ''metrics''
             (sint (0 :: int32)) = Inr 7
           \<and> ReadOffsets ?k2 7 = Inl (LibError ''i/o timeout'')"
    by (simp add: example_kafka_def)
  have a: "BootstrapServers ?c = ''broker-1:9092,broker-2:9092''" "network = ''tcp''"
    by (simp_all add: example_defs)
  from TopicAssign_earliest_aborts_without_reader
         [OF d, where k = ?k1 and topic = "''metrics''" and p = 0
            and e = "LibError ''no leader''" and conn = 7 and tm = "''now''"]
       TopicAssign_earliest_aborts_without_reader
         [OF d, where k = ?k2 and topic = "''metrics''" and p = 0
            and e = "LibError ''i/o timeout''" and conn = 7 and tm = "''now''"]
       1 2 a
  show ?thesis
    by simp
qed

subsection \<open>The timestamp mode\<close>

text \<open>
  C10. In both revisions \<^verbatim>\<open>TopicAssign\<close> assigns \<^verbatim>\<open>client.TimestampMode\<close> before anything
  else: whatever the call does afterwards (return nil, return an error, panic), the client
  holds the new timestamp mode. In particular it does when \<^verbatim>\<open>consumerInitialize\<close> fails
  (client.go: the client that comes back is the old one with the new timestamp mode),
  when the leader cannot be dialled and when the watermarks cannot be read (part_000).
\<close>

theorem TopicAssign_sets_TimestampMode_first:
  "TimestampMode (fst (snd (TopicAssign_lookback k c topic p pol tm))) = tm
   \<and> TimestampMode (fst (snd (TopicAssign_group k c topic p pol tm))) = tm
   \<and> (fst (consumerInitialize k c) = Some e \<longrightarrow>
        TopicAssign_group k c topic p pol tm =
          (Returns (Some (UnableToInitialize e)), c\<lparr>TimestampMode := tm\<rparr>, []))
   \<and> (Dialer c = Some d
        \<and> DialLeader k d network (BootstrapServers c) topic (sint p) = Inl e \<longrightarrow>
        fst (TopicAssign_lookback k c topic p ''earliest'' tm) =
          Returns (Some (UnableToDialLeader e)))
   \<and> (Dialer c = Some d
        \<and> DialLeader k d network (BootstrapServers c) topic (sint p) = Inr conn
        \<and> ReadOffsets k conn = Inl e \<longrightarrow>
        fst (TopicAssign_lookback k c topic p ''earliest'' tm) =
          Returns (Some (UnableToReadOffsets e)))"
proof -
  have g: "TopicAssign_group k c topic p pol tm =
          (Returns (Some (UnableToInitialize e)), c\<lparr>TimestampMode := tm\<rparr>, [])"
    if "fst (consumerInitialize k c) = Some e"
  proof -
    have "snd (consumerInitialize k c) = c"
      using that by (auto simp: consumerInitialize_def split: sum.splits)
    with that show ?thesis
      by (simp add: TopicAssign_group_def Let_def consumerInitialize_TimestampMode)
  qed
  have 1: "fst (TopicAssign_lookback k c topic p ''earliest'' tm) =
          Returns (Some (UnableToDialLeader e))"
    if "Dialer c = Some d" "DialLeader k d network (BootstrapServers c) topic (sint p) = Inl e"
    using that by (simp add: TopicAssign_lookback_def resolve_offset_lookback_def Let_def)
  have 2: "fst (TopicAssign_lookback k c topic p ''earliest'' tm) =
          Returns (Some (UnableToReadOffsets e))"
    if "Dialer c = Some d" "DialLeader k d network (BootstrapServers c) topic (sint p) = Inr conn"
       "ReadOffsets k conn = Inl e"
    using that by (simp add: TopicAssign_lookback_def resolve_offset_lookback_def Let_def)
  show ?thesis
    using g 1 2 TopicAssign_lookback_TimestampMode [of k c topic p pol tm]
      TopicAssign_group_TimestampMode [of k c topic p pol tm]
    by blast
qed

theorem TopicAssign_sets_TimestampMode_first_witness:
  "TimestampMode (example_client\<lparr>SaslMechanisms := ''GSSAPI'', TimestampMode := ''message''\<rparr>)
     = ''message''
   \<and> TopicAssign_group example_kafka
       (example_client\<lparr>SaslMechanisms := ''GSSAPI'', TimestampMode := ''message''\<rparr>)
       ''metrics'' 0 ''latest'' ''now'' =
      (Returns (Some (UnableToInitialize
                 (UnableToGetSaslMechanism (UnsupportedMechanism ''GSSAPI'')))),
       example_client\<lparr>SaslMechanisms := ''GSSAPI'', TimestampMode := ''now''\<rparr>, [])
   \<and> (let r = TopicAssign_lookback
                 (example_kafka\<lparr>ReadOffsets := \<lambda>conn. Inl (LibError ''i/o timeout'')\<rparr>)
                 (example_client\<lparr>Dialer := Some example_dialer, TimestampMode := ''message''\<rparr>)
                 ''metrics'' 0 ''earliest'' ''now''
        in fst r = Returns (Some (UnableToReadOffsets (LibError ''i/o timeout'')))
           \<and> TimestampMode (fst (snd r)) = ''now'')"
proof -
  let ?c = "example_client\<lparr>SaslMechanisms := ''GSSAPI'', TimestampMode := ''message''\<rparr>"
  let ?e = "UnableToGetSaslMechanism (UnsupportedMechanism ''GSSAPI'')"
  let ?k2 = "example_kafka\<lparr>ReadOffsets := \<lambda>conn. Inl (LibError ''i/o timeout'')\<rparr>"
  let ?c2 = "example_client\<lparr>Dialer := Some example_dialer, TimestampMode := ''message''\<rparr>"
  have 1: "fst (consumerInitialize example_kafka ?c) = Some ?e"
    by (simp add: consumerInitialize_def getSASLMechanism_def)
  have 2: "Dialer ?c2 = Some example_dialer
           \<and> DialLeader ?k2 example_dialer network (BootstrapServers ?c2) ''metrics''
               (sint (0 :: int32)) = Inr 7
           \<and> ReadOffsets ?k2 7 = Inl (LibError ''i/o timeout'')"
    by (simp add: example_kafka_def)
  from TopicAssign_sets_TimestampMode_first
         [where k = example_kafka and c = ?c and topic = "''metrics''" and p = 0
            and pol = "''latest''" and tm = "''now''" and e = ?e and d = example_dialer
            and conn = 7]
       TopicAssign_sets_TimestampMode_first
         [where k = ?k2 and c = ?c2 and topic = "''metrics''" and p = 0
            and pol = "''earliest''" and tm = "''now''" and e = "LibError ''i/o timeout''"
            and d = example_dialer and conn = 7]
       1 2
  show ?thesis
    by (simp add: Let_def)
qed

subsection \<open>The start offset of \<^verbatim>\<open>latest\<close> and of an unknown policy\<close>

text \<open>
  C8. For the policy \<^verbatim>\<open>latest\<close> and for every policy other than \<^verbatim>\<open>latest\<close> and \<^verbatim>\<open>earliest\<close>
  (that is, for every policy but \<^verbatim>\<open>earliest\<close>), in both revisions: the switch makes no
  call and leaves \<^verbatim>\<open>kafka.LastOffset\<close> in \<^verbatim>\<open>offset\<close>; the whole of \<^verbatim>\<open>TopicAssign\<close> makes no
  call that reaches the broker; the offset given to \<^verbatim>\<open>SetOffset\<close> (part_000) and the start
  offset of every reader opened (client.go) is \<^verbatim>\<open>kafka.LastOffset\<close>.
\<close>

theorem TopicAssign_latest_without_round_trip:
  assumes "pol \<noteq> ''earliest''"
  shows "resolve_offset_lookback k (c\<lparr>TimestampMode := tm\<rparr>) topic p pol = (Inr (LastOffset k), [], [])
         \<and> resolve_offset_group k pol = LastOffset k
         \<and> filter is_broker_call (snd (snd (TopicAssign_lookback k c topic p pol tm))) = []
         \<and> filter is_broker_call (snd (snd (TopicAssign_group k c topic p pol tm))) = []
         \<and> (fst (TopicAssign_lookback k c topic p pol tm) \<noteq> Panics \<longrightarrow>
              offsets_set (snd (snd (TopicAssign_lookback k c topic p pol tm))) = [LastOffset k])
         \<and> (fst (TopicAssign_lookback k c topic p pol tm) = Returns None \<longrightarrow>
              (\<exists>r. Reader (fst (snd (TopicAssign_lookback k c topic p pol tm))) = Some r
                   \<and> offset r = Some (LastOffset k)))
         \<and> (\<forall>cfg \<in> set (readers_opened (snd (snd (TopicAssign_group k c topic p pol tm)))).
              StartOffset cfg = Some (LastOffset k))"
proof -
  have r: "resolve_offset_lookback k (c\<lparr>TimestampMode := tm\<rparr>) topic p pol =
             (Inr (LastOffset k), [], [])"
    using assms by (rule resolve_not_earliest)
  have g: "resolve_offset_group k pol = LastOffset k"
    using assms by (simp add: resolve_offset_group_def)
  have 1: "filter is_broker_call (snd (snd (TopicAssign_lookback k c topic p pol tm))) = []"
    using assms by (rule TopicAssign_lookback_no_call)
  have 2: "filter is_broker_call (snd (snd (TopicAssign_group k c topic p pol tm))) = []"
    using TopicAssign_group_events [of k c topic p pol tm] by auto
  have 3: "\<forall>cfg \<in> set (readers_opened (snd (snd (TopicAssign_group k c topic p pol tm)))).
              StartOffset cfg = Some (LastOffset k)"
    using TopicAssign_group_events [of k c topic p pol tm] g by auto
  from TopicAssign_lookback_resolved [OF r] have 4:
    "(fst (TopicAssign_lookback k c topic p pol tm) \<noteq> Panics \<longrightarrow>
              offsets_set (snd (snd (TopicAssign_lookback k c topic p pol tm))) = [LastOffset k])
         \<and> (fst (TopicAssign_lookback k c topic p pol tm) = Returns None \<longrightarrow>
              (\<exists>r. Reader (fst (snd (TopicAssign_lookback k c topic p pol tm))) = Some r
                   \<and> offset r = Some (LastOffset k)))"
    by auto
  from r g 1 2 3 4 show ?thesis
    by blast
qed

theorem TopicAssign_latest_without_round_trip_witness:
  "''newest'' \<noteq> ''earliest''
   \<and> TopicAssign_lookback example_kafka (example_client\<lparr>Dialer := Some example_dialer\<rparr>)
        ''metrics'' 0 ''newest'' ''now'' =
       (Returns None,
        example_client\<lparr>Dialer := Some example_dialer, TimestampMode := ''now'',
          Reader := Some (example_reader\<lparr>offset := Some (- 1)\<rparr>)\<rparr>,
        [EvNewReader (config example_reader), EvSetOffset (- 1)])
   \<and> offsets_set (snd (snd (TopicAssign_lookback example_kafka
         (example_client\<lparr>Dialer := Some example_dialer\<rparr>) ''metrics'' 0 ''newest'' ''now'')))
       = [- 1]
   \<and> readers_opened (snd (snd (TopicAssign_group example_kafka example_client
         ''metrics'' 0 ''newest'' ''now''))) =
       [(config example_reader)\<lparr>GroupID := ''kafka-datasource'', StartOffset := Some (- 1),
          ReaderDialer := Some (example_dialer\<lparr>TLS := Some \<lparr> MinVersion = 0 \<rparr>\<rparr>)\<rparr>]"
proof -
  have n: "''newest'' \<noteq> ''earliest''" by simp
  have l: "LastOffset example_kafka = - 1"
    by (simp add: example_kafka_def)
  have a: "TopicAssign_lookback example_kafka (example_client\<lparr>Dialer := Some example_dialer\<rparr>)
        ''metrics'' 0 ''newest'' ''now'' =
       (Returns None,
        example_client\<lparr>Dialer := Some example_dialer, TimestampMode := ''now'',
          Reader := Some (example_reader\<lparr>offset := Some (- 1)\<rparr>)\<rparr>,
        [EvNewReader (config example_reader), EvSetOffset (- 1)])"
    by (simp add: assign_defs example_defs)
  have b: "readers_opened (snd (snd (TopicAssign_group example_kafka example_client
         ''metrics'' 0 ''newest'' ''now''))) =
       [(config example_reader)\<lparr>GroupID := ''kafka-datasource'', StartOffset := Some (- 1),
          ReaderDialer := Some (example_dialer\<lparr>TLS := Some \<lparr> MinVersion = 0 \<rparr>\<rparr>)\<rparr>]"
    by (simp add: assign_defs example_defs)
  from TopicAssign_latest_without_round_trip
         [OF n, where k = example_kafka and c = "example_client\<lparr>Dialer := Some example_dialer\<rparr>"
            and topic = "''metrics''" and p = 0 and tm = "''now''"] a b l
  show ?thesis
    by simp
qed

subsection \<open>The dialer that an assignment uses\<close>

text \<open>
  C4, as the claim states it, fails on part_000: its \<^verbatim>\<open>TopicAssign\<close> does not call
  \<^verbatim>\<open>NewConnection\<close>. On a client that was just made it opens the reader with the nil dialer
  of the client and leaves the field nil, where \<^verbatim>\<open>NewConnection\<close> would have built a dialer.
\<close>

theorem TopicAssign_lookback_builds_no_dialer:
  "readers_opened (snd (snd (TopicAssign_lookback example_kafka example_client
       ''metrics'' 0 ''latest'' ''now''))) = [(config example_reader)\<lparr>ReaderDialer := None\<rparr>]
   \<and> Dialer (fst (snd (TopicAssign_lookback example_kafka example_client
       ''metrics'' 0 ''latest'' ''now''))) = None
   \<and> NewConnection example_kafka example_client =
       (None, example_client\<lparr>Dialer := Some example_dialer\<rparr>)"
  by (simp add: assign_defs example_defs)

text \<open>
  C4, amended. In client.go every call of \<^verbatim>\<open>TopicAssign\<close> calls \<^verbatim>\<open>consumerInitialize\<close> before
  it resolves the offset and opens the reader: when the builder returns nil the call does
  not depend on the dialer stored before (any other stored dialer gives the same result),
  the client and every reader opened hold the dialer just built, and no reader is opened
  unless the builder returned nil; when the builder fails the call returns its error
  wrapped and opens nothing. In part_000 \<^verbatim>\<open>TopicAssign\<close> does not call the builder: the
  dialer of the client is unchanged and every reader opened holds that stored dialer.
\<close>

theorem TopicAssign_dialer_by_revision:
  "(fst (consumerInitialize k c) = None \<longrightarrow>
      TopicAssign_group k (c\<lparr>Dialer := d0\<rparr>) topic p pol tm = TopicAssign_group k c topic p pol tm
      \<and> Dialer (fst (snd (TopicAssign_group k c topic p pol tm))) =
          Dialer (snd (consumerInitialize k c)))
   \<and> (\<forall>cfg \<in> set (readers_opened (snd (snd (TopicAssign_group k c topic p pol tm)))).
        fst (consumerInitialize k c) = None
        \<and> ReaderDialer cfg = Dialer (snd (consumerInitialize k c)))
   \<and> (fst (consumerInitialize k c) = Some e \<longrightarrow>
        TopicAssign_group k c topic p pol tm =
          (Returns (Some (UnableToInitialize e)), c\<lparr>TimestampMode := tm\<rparr>, []))
   \<and> Dialer (fst (snd (TopicAssign_lookback k c topic p pol tm))) = Dialer c
   \<and> (\<forall>cfg \<in> set (readers_opened (snd (snd (TopicAssign_lookback k c topic p pol tm)))).
        ReaderDialer cfg = Dialer c)"
proof -
  let ?c = "c\<lparr>TimestampMode := tm\<rparr>"
  have ci: "consumerInitialize k ?c =
          (fst (consumerInitialize k c), (snd (consumerInitialize k c))\<lparr>TimestampMode := tm\<rparr>)"
    by (rule consumerInitialize_TimestampMode)
  have 1: "TopicAssign_group k (c\<lparr>Dialer := d0\<rparr>) topic p pol tm =
             TopicAssign_group k c topic p pol tm"
    if "fst (consumerInitialize k c) = None"
  proof -
    have "consumerInitialize k (?c\<lparr>Dialer := d0\<rparr>) = consumerInitialize k ?c"
      using consumerInitialize_Dialer [where k = k and c = ?c and ?d0.0 = d0] that ci
      by (simp add: prod_eq_iff)
    moreover have "c\<lparr>Dialer := d0, TimestampMode := tm\<rparr> = ?c\<lparr>Dialer := d0\<rparr>"
      by simp
    ultimately show ?thesis
      by (simp only: TopicAssign_group_def Let_def)
  qed
  have 2: "Dialer (fst (snd (TopicAssign_group k c topic p pol tm))) =
             Dialer (snd (consumerInitialize k c))"
    if "fst (consumerInitialize k c) = None"
    using that ci
    by (auto simp: TopicAssign_group_def Let_def split: prod.splits outcome.splits)
  have 3: "\<forall>cfg \<in> set (readers_opened (snd (snd (TopicAssign_group k c topic p pol tm)))).
        fst (consumerInitialize k c) = None
        \<and> ReaderDialer cfg = Dialer (snd (consumerInitialize k c))"
  proof (cases "fst (consumerInitialize k c)")
    case None
    with TopicAssign_group_events [of k c topic p pol tm] ci show ?thesis
      by auto
  next
    case (Some e')
    with ci show ?thesis
      by (simp add: TopicAssign_group_def Let_def)
  qed
  have 4: "TopicAssign_group k c topic p pol tm =
          (Returns (Some (UnableToInitialize e)), ?c, [])"
    if "fst (consumerInitialize k c) = Some e"
    using consumerInitialize_fails [OF that] ci
    by (simp add: TopicAssign_group_def Let_def)
  from 1 2 3 4 TopicAssign_lookback_Dialer [of k c topic p pol tm]
    TopicAssign_lookback_opened [of k c topic p pol tm]
  show ?thesis
    by blast
qed

theorem TopicAssign_dialer_by_revision_witness:
  "consumerInitialize example_kafka example_client =
     (None, example_client\<lparr>Dialer := Some (example_dialer\<lparr>TLS := Some \<lparr> MinVersion = 0 \<rparr>\<rparr>)\<rparr>)
   \<and> TopicAssign_group example_kafka
        (example_client\<lparr>Dialer := Some \<lparr> Timeout = 1, SASLMechanism = None, TLS = None \<rparr>\<rparr>)
        ''metrics'' 0 ''earliest'' ''now'' =
      TopicAssign_group example_kafka example_client ''metrics'' 0 ''earliest'' ''now''
   \<and> Dialer (fst (snd (TopicAssign_group example_kafka example_client
        ''metrics'' 0 ''earliest'' ''now''))) =
      Some (example_dialer\<lparr>TLS := Some \<lparr> MinVersion = 0 \<rparr>\<rparr>)
   \<and> Dialer (fst (snd (TopicAssign_lookback example_kafka
        (example_client\<lparr>Dialer := Some \<lparr> Timeout = 1, SASLMechanism = None, TLS = None \<rparr>\<rparr>)
        ''metrics'' 0 ''earliest'' ''now''))) =
      Some \<lparr> Timeout = 1, SASLMechanism = None, TLS = None \<rparr>"
proof -
  have a: "consumerInitialize example_kafka example_client =
     (None, example_client\<lparr>Dialer := Some (example_dialer\<lparr>TLS := Some \<lparr> MinVersion = 0 \<rparr>\<rparr>)\<rparr>)"
    by (simp add: assign_defs example_defs)
  from TopicAssign_dialer_by_revision
         [where k = example_kafka and c = example_client and topic = "''metrics''" and p = 0
            and pol = "''earliest''" and tm = "''now''"
            and ?d0.0 = "Some \<lparr> Timeout = 1, SASLMechanism = None, TLS = None \<rparr>"]
       TopicAssign_dialer_by_revision
         [where k = example_kafka
            and c = "example_client\<lparr>Dialer := Some \<lparr> Timeout = 1, SASLMechanism = None, TLS = None \<rparr>\<rparr>"
            and topic = "''metrics''" and p = 0 and pol = "''earliest''" and tm = "''now''"]
       a
  show ?thesis
    by simp
qed

subsection \<open>Disposing of the reader\<close>

text \<open>\<^verbatim>\<open>Dispose\<close> of part_000 returns on every client, changes nothing and calls nothing
  when no reader is bound, calls \<^verbatim>\<open>Close\<close> once on a bound reader, and can be called again.\<close>

lemma Dispose_lookback_returns: "fst (Dispose_lookback c) = Returns ()"
  by (simp add: Dispose_lookback_def split: option.splits)

lemma Dispose_lookback_without_reader:
  assumes "Reader c = None"
  shows "Dispose_lookback c = (Returns (), c, [])"
  using assms by (simp add: Dispose_lookback_def)

lemma Dispose_lookback_closes_once:
  assumes "Reader c = Some r"
  shows "Dispose_lookback c = (Returns (), c\<lparr>Reader := Some (r\<lparr>closed := True\<rparr>)\<rparr>, [EvReaderClose])"
  using assms by (simp add: Dispose_lookback_def Reader_Close_def)

lemma Dispose_lookback_twice:
  "fst (Dispose_lookback (fst (snd (Dispose_lookback c)))) = Returns ()
   \<and> fst (snd (Dispose_lookback (fst (snd (Dispose_lookback c))))) = fst (snd (Dispose_lookback c))"
  by (simp add: Dispose_lookback_def Reader_Close_def split: option.splits)

text \<open>
  C6 on client.go: \<^verbatim>\<open>Dispose\<close> has no test for nil, so on a client on which no assignment
  was made (as \<^verbatim>\<open>NewKafkaClient\<close> returns it) it calls \<^verbatim>\<open>Close\<close> on the nil reader and panics.
\<close>

theorem Dispose_group_panics_without_reader:
  "Dispose_group (NewKafkaClient options) = (Panics, NewKafkaClient options, [])"
  by (simp add: Dispose_group_def NewKafkaClient_def)

subsection \<open>The SASL mechanism\<close>

text \<open>
  C3, as the claim states it, fails where \<^verbatim>\<open>scram.Mechanism\<close> returns an error: for the name
  \<^verbatim>\<open>SCRAM-SHA-256\<close> and a user name that the constructor refuses, \<^verbatim>\<open>getSASLMechanism\<close>
  returns that error and no mechanism, and \<^verbatim>\<open>NewConnection\<close> fails.
\<close>

theorem getSASLMechanism_scram_refused:
  "getSASLMechanism example_kafka_saslprep
     (example_client\<lparr>SaslMechanisms := ''SCRAM-SHA-256'', SaslUsername := ''grafana'' @ [CHR 0x0A]\<rparr>)
     = Inl (LibError ''SASLprep: prohibited character'')
   \<and> fst (NewConnection example_kafka_saslprep
       (example_client\<lparr>SaslMechanisms := ''SCRAM-SHA-256'', SaslUsername := ''grafana'' @ [CHR 0x0A]\<rparr>))
     = Some (UnableToGetSaslMechanism (LibError ''SASLprep: prohibited character''))"
  by (simp add: getSASLMechanism_def NewConnection_def example_kafka_saslprep_def example_defs)

text \<open>
  C3, amended. For the empty name \<^verbatim>\<open>getSASLMechanism\<close> returns no mechanism and no error,
  and \<^verbatim>\<open>NewConnection\<close> builds a dialer without SASL; for \<^verbatim>\<open>PLAIN\<close> it returns the plain
  mechanism of the user name and the password; for \<^verbatim>\<open>SCRAM-SHA-256\<close> and \<^verbatim>\<open>SCRAM-SHA-512\<close> it
  returns what the SCRAM constructor returns for that algorithm, a mechanism when the
  constructor accepts the credentials and its error otherwise; for every other name it
  fails with \<^verbatim>\<open>unsupported mechanism SASL\<close>, which both builders return wrapped, leaving
  the client unchanged.
\<close>

theorem getSASLMechanism_by_name:
  "(SaslMechanisms c = [] \<longrightarrow>
      getSASLMechanism k c = Inr None
      \<and> NewConnection k c =
          (None, c\<lparr>Dialer := Some \<lparr> Timeout = dialerTimeout, SASLMechanism = None,
                      TLS = (if SecurityProtocol c = ''SASL_SSL''
                             then Some \<lparr> MinVersion = VersionTLS13 \<rparr> else None) \<rparr>\<rparr>))
   \<and> (SaslMechanisms c = ''PLAIN'' \<longrightarrow>
        getSASLMechanism k c = Inr (Some (plain_Mechanism (SaslUsername c) (SaslPassword c))))
   \<and> (SaslMechanisms c = ''SCRAM-SHA-256'' \<longrightarrow>
        (\<forall>m. scram_Mechanism k SHA256 (SaslUsername c) (SaslPassword c) = Inr m \<longrightarrow>
             getSASLMechanism k c = Inr (Some m))
        \<and> (\<forall>e. scram_Mechanism k SHA256 (SaslUsername c) (SaslPassword c) = Inl e \<longrightarrow>
             getSASLMechanism k c = Inl e))
   \<and> (SaslMechanisms c = ''SCRAM-SHA-512'' \<longrightarrow>
        (\<forall>m. scram_Mechanism k SHA512 (SaslUsername c) (SaslPassword c) = Inr m \<longrightarrow>
             getSASLMechanism k c = Inr (Some m))
        \<and> (\<forall>e. scram_Mechanism k SHA512 (SaslUsername c) (SaslPassword c) = Inl e \<longrightarrow>
             getSASLMechanism k c = Inl e))
   \<and> (SaslMechanisms c \<notin> {[], ''PLAIN'', ''SCRAM-SHA-256'', ''SCRAM-SHA-512''} \<longrightarrow>
        getSASLMechanism k c = Inl (UnsupportedMechanism (SaslMechanisms c))
        \<and> NewConnection k c =
            (Some (UnableToGetSaslMechanism (UnsupportedMechanism (SaslMechanisms c))), c)
        \<and> consumerInitialize k c =
            (Some (UnableToGetSaslMechanism (UnsupportedMechanism (SaslMechanisms c))), c))"
proof -
  have 1: "getSASLMechanism k c = Inr None" if "SaslMechanisms c = []"
    using that by (simp add: getSASLMechanism_def)
  have 2: "NewConnection k c =
          (None, c\<lparr>Dialer := Some \<lparr> Timeout = dialerTimeout, SASLMechanism = None,
                      TLS = (if SecurityProtocol c = ''SASL_SSL''
                             then Some \<lparr> MinVersion = VersionTLS13 \<rparr> else None) \<rparr>\<rparr>)"
    if "SaslMechanisms c = []"
    using that by (simp add: NewConnection_def)
  have 3: "getSASLMechanism k c = Inr (Some (plain_Mechanism (SaslUsername c) (SaslPassword c)))"
    if "SaslMechanisms c = ''PLAIN''"
    using that by (simp add: getSASLMechanism_def)
  have 4: "getSASLMechanism k c =
             (case scram_Mechanism k SHA256 (SaslUsername c) (SaslPassword c) of
                Inl e \<Rightarrow> Inl e | Inr m \<Rightarrow> Inr (Some m))"
    if "SaslMechanisms c = ''SCRAM-SHA-256''"
    using that by (simp add: getSASLMechanism_def)
  have 5: "getSASLMechanism k c =
             (case scram_Mechanism k SHA512 (SaslUsername c) (SaslPassword c) of
                Inl e \<Rightarrow> Inl e | Inr m \<Rightarrow> Inr (Some m))"
    if "SaslMechanisms c = ''SCRAM-SHA-512''"
    using that by (simp add: getSASLMechanism_def)
  have 6: "getSASLMechanism k c = Inl (UnsupportedMechanism (SaslMechanisms c))"
    if "SaslMechanisms c \<notin> {[], ''PLAIN'', ''SCRAM-SHA-256'', ''SCRAM-SHA-512''}"
    using that by (simp add: getSASLMechanism_def)
  have 7: "NewConnection k c =
            (Some (UnableToGetSaslMechanism (UnsupportedMechanism (SaslMechanisms c))), c)"
       "consumerInitialize k c =
            (Some (UnableToGetSaslMechanism (UnsupportedMechanism (SaslMechanisms c))), c)"
    if "SaslMechanisms c \<notin> {[], ''PLAIN'', ''SCRAM-SHA-256'', ''SCRAM-SHA-512''}"
    using that 6 [OF that] by (simp_all add: NewConnection_def consumerInitialize_def)
  from 4 have s256: "(\<forall>m. scram_Mechanism k SHA256 (SaslUsername c) (SaslPassword c) = Inr m \<longrightarrow>
             getSASLMechanism k c = Inr (Some m))
        \<and> (\<forall>e. scram_Mechanism k SHA256 (SaslUsername c) (SaslPassword c) = Inl e \<longrightarrow>
             getSASLMechanism k c = Inl e)"
    if "SaslMechanisms c = ''SCRAM-SHA-256''"
    using that by simp
  from 5 have s512: "(\<forall>m. scram_Mechanism k SHA512 (SaslUsername c) (SaslPassword c) = Inr m \<longrightarrow>
             getSASLMechanism k c = Inr (Some m))
        \<and> (\<forall>e. scram_Mechanism k SHA512 (SaslUsername c) (SaslPassword c) = Inl e \<longrightarrow>
             getSASLMechanism k c = Inl e)"
    if "SaslMechanisms c = ''SCRAM-SHA-512''"
    using that by simp
  from 1 2 3 s256 s512 6 7 show ?thesis
    by blast
qed

theorem getSASLMechanism_by_name_witness:
  "getSASLMechanism example_kafka (example_client\<lparr>SaslMechanisms := []\<rparr>) = Inr None
   \<and> getSASLMechanism example_kafka example_client =
       Inr (Some (plain_Mechanism ''grafana'' ''secret''))
   \<and> getSASLMechanism example_kafka (example_client\<lparr>SaslMechanisms := ''SCRAM-SHA-256''\<rparr>) =
       Inr (Some (scram_mechanism SHA256 ''grafana'' ''secret''))
   \<and> getSASLMechanism example_kafka_saslprep
         (example_client\<lparr>SaslMechanisms := ''SCRAM-SHA-512'',
            SaslUsername := ''grafana'' @ [CHR 0x0A]\<rparr>) =
       Inl (LibError ''SASLprep: prohibited character'')
   \<and> getSASLMechanism example_kafka (example_client\<lparr>SaslMechanisms := ''GSSAPI''\<rparr>) =
       Inl (UnsupportedMechanism ''GSSAPI'')
   \<and> NewConnection example_kafka (example_client\<lparr>SaslMechanisms := ''GSSAPI''\<rparr>) =
       (Some (UnableToGetSaslMechanism (UnsupportedMechanism ''GSSAPI'')),
        example_client\<lparr>SaslMechanisms := ''GSSAPI''\<rparr>)"
proof -
  let ?bad = "example_client\<lparr>SaslMechanisms := ''SCRAM-SHA-512'',
                SaslUsername := ''grafana'' @ [CHR 0x0A]\<rparr>"
  have 1: "SaslMechanisms (example_client\<lparr>SaslMechanisms := []\<rparr>) = []" by simp
  have 2: "SaslMechanisms example_client = ''PLAIN''"
    "SaslUsername example_client = ''grafana''" "SaslPassword example_client = ''secret''"
    by (simp_all add: example_defs)
  have 3: "scram_Mechanism example_kafka SHA256 ''grafana'' ''secret'' =
             Inr (scram_mechanism SHA256 ''grafana'' ''secret'')"
    by (simp add: example_kafka_def)
  have 4: "scram_Mechanism example_kafka_saslprep SHA512 (''grafana'' @ [CHR 0x0A]) ''secret'' =
             Inl (LibError ''SASLprep: prohibited character'')"
    by (simp add: example_kafka_saslprep_def)
  have 5: "''GSSAPI'' \<notin> {[], ''PLAIN'', ''SCRAM-SHA-256'', ''SCRAM-SHA-512''}" by simp
  from getSASLMechanism_by_name [of "example_client\<lparr>SaslMechanisms := []\<rparr>" example_kafka]
       getSASLMechanism_by_name [of example_client example_kafka]
       getSASLMechanism_by_name
         [of "example_client\<lparr>SaslMechanisms := ''SCRAM-SHA-256''\<rparr>" example_kafka]
       getSASLMechanism_by_name [of ?bad example_kafka_saslprep]
       getSASLMechanism_by_name
         [of "example_client\<lparr>SaslMechanisms := ''GSSAPI''\<rparr>" example_kafka]
       1 2 3 4 5
  show ?thesis
    by simp
qed

subsection \<open>Pulling and decoding\<close>









text \<open>What the scanner does with some bodies: it refuses the empty body and every body
  whose first byte is neither white space nor the first byte of a value; it reads the
  bodies of the examples.\<close>

lemma scan_bytes_refused:
  "scan_step s c = None \<Longrightarrow> scan_bytes s (c # cs) = None"
  by simp

lemma json_scan_empty: "json_scan [] = None"
  by code_simp

lemma json_scan_first_byte:
  assumes "\<not> isSpace c" and "c \<notin> set ''{[-0tfn''" and "c \<noteq> CHR 0x22" and "\<not> is_digit19 c"
  shows "json_scan (c # cs) = None"
proof -
  have "scan_step \<lparr> step = stateBeginValue, parseState = [], literal = [], endTop = None \<rparr> c = None"
    using assms by (simp add: scan_step_def do_stateBeginValue_def)
  then show ?thesis by (simp add: json_scan_def)
qed












subsection \<open>The loop of the health check\<close>


lemma dial_error_Some:
  "dial_error f \<noteq> None \<Longrightarrow> \<exists>e. dial f = Inl e \<and> dial_error f = Some e"
  by (cases "dial f") (simp_all add: dial_error_def)

lemma HealthCheck_loop_failed_dials:
  assumes d: "Dialer c = Some d"
  shows "ticks_taken (HealthcheckTimeout c) now n fs \<Longrightarrow>
         \<forall>f \<in> set fs. dial_error f \<noteq> None \<Longrightarrow>
         HealthCheck_loop c now n err (fs @ rest) =
           (fst (HealthCheck_loop c (loop_time now n fs) (n + length fs)
                   (if fs = [] then err else dial_error (last fs)) rest),
            replicate (length fs) (EvDial d network (BootstrapServers c))
            @ snd (HealthCheck_loop c (loop_time now n fs) (n + length fs)
                     (if fs = [] then err else dial_error (last fs)) rest))"
proof (induction fs arbitrary: now n err)
  case Nil
  then show ?case by simp
next
  case (Cons f fs)
  from Cons.prems obtain e where e: "dial f = Inl e" "dial_error f = Some e"
    using dial_error_Some [of f] by auto
  from Cons.prems have s: "select_tick (HealthcheckTimeout c) now n f"
    and t: "ticks_taken (HealthcheckTimeout c) (tick_ready now n f + took f) (n + 1) fs"
    and a: "\<forall>f \<in> set fs. dial_error f \<noteq> None"
    by simp_all
  have "(if fs = [] then Some e else dial_error (last fs)) =
          (if f # fs = [] then err else dial_error (last (f # fs)))"
    using e by simp
  with Cons.IH [OF t a, of "Some e"] s e d show ?case
    by (simp add: case_prod_unfold)
qed

lemma HealthCheck_loop_timer:
  assumes "timer_first (HealthcheckTimeout c) now n rest"
  shows "HealthCheck_loop c now n err rest =
           (Returns (Some (HealthCheckTimedOut (HealthcheckTimeout c) err)), [EvTickerStop])"
  using assms by (cases rest) (simp_all add: timer_first_def)

lemma HealthCheck_loop_listing_fails:
  assumes "Dialer c = Some d" "select_tick (HealthcheckTimeout c) now n t"
    and "dial t = Inr conn" "readPartitions t = Some e"
  shows "HealthCheck_loop c now n err (t # rest) =
           (Returns (Some (ErrorReadingPartitions e)),
            [EvDial d network (BootstrapServers c), EvReadPartitions conn, EvConnClose conn,
             EvTickerStop])"
  using assms by simp

lemma ticks_taken_append:
  "ticks_taken ms now n (fs @ ts) =
     (ticks_taken ms now n fs \<and> ticks_taken ms (loop_time now n fs) (n + length fs) ts)"
  by (induction fs arbitrary: now n) simp_all

lemma short_deadline_timer_first:
  assumes "sint ms < 200"
  shows "timer_first ms 0 0 ticks"
proof (cases ticks)
  case Nil
  then show ?thesis by (simp add: timer_first_def)
next
  case (Cons t ts)
  have "nat (sint ms) < 200"
    using assms by simp
  then have "\<not> select_tick ms 0 0 t"
    by (simp add: select_tick_def tick_ready_def timeout_ready_def)
  with Cons show ?thesis
    by (simp add: timer_first_def)
qed

lemma NewConnection_succeeds:
  assumes "fst (NewConnection k c) = None"
  shows "\<exists>d. Dialer (snd (NewConnection k c)) = Some d"
    and "HealthcheckTimeout (snd (NewConnection k c)) = HealthcheckTimeout c"
    and "BootstrapServers (snd (NewConnection k c)) = BootstrapServers c"
  using assms by (auto simp: NewConnection_def split: sum.splits)

lemma consumerInitialize_succeeds:
  assumes "fst (consumerInitialize k c) = None"
  shows "\<exists>d. Dialer (snd (consumerInitialize k c)) = Some d"
    and "HealthcheckTimeout (snd (consumerInitialize k c)) = HealthcheckTimeout c"
    and "BootstrapServers (snd (consumerInitialize k c)) = BootstrapServers c"
  using assms by (auto simp: consumerInitialize_def split: sum.splits)

text \<open>A run of the loop in which the ticks \<open>fs\<close> are taken and fail to dial, and the tick
  \<open>t\<close> is taken, dials and fails to list.\<close>

lemma HealthCheck_loop_listing_fatal:
  assumes d: "Dialer c = Some d"
    and taken: "ticks_taken (HealthcheckTimeout c) 0 0 (fs @ [t])"
    and fails: "\<forall>f \<in> set fs. dial_error f \<noteq> None"
    and t: "dial t = Inr conn" "readPartitions t = Some e"
  shows "HealthCheck_loop c 0 0 None (fs @ t # rest) =
           (Returns (Some (ErrorReadingPartitions e)),
            replicate (length fs) (EvDial d network (BootstrapServers c))
            @ [EvDial d network (BootstrapServers c), EvReadPartitions conn, EvConnClose conn,
               EvTickerStop])"
proof -
  from taken have 1: "ticks_taken (HealthcheckTimeout c) 0 0 fs"
    and 2: "select_tick (HealthcheckTimeout c) (loop_time 0 0 fs) (length fs) t"
    by (simp_all add: ticks_taken_append)
  show ?thesis
    using HealthCheck_loop_failed_dials [OF d 1 fails, of None "t # rest"]
      HealthCheck_loop_listing_fails [OF d 2 t]
    by simp
qed

lemma HealthCheck_loop_times_out:
  assumes d: "Dialer c = Some d"
    and taken: "ticks_taken (HealthcheckTimeout c) 0 0 fs"
    and fails: "\<forall>f \<in> set fs. dial_error f \<noteq> None"
    and timer: "timer_first (HealthcheckTimeout c) (loop_time 0 0 fs) (length fs) rest"
  shows "HealthCheck_loop c 0 0 None (fs @ rest) =
           (Returns (Some (HealthCheckTimedOut (HealthcheckTimeout c)
                            (if fs = [] then None else dial_error (last fs)))),
            replicate (length fs) (EvDial d network (BootstrapServers c)) @ [EvTickerStop])"
  using HealthCheck_loop_failed_dials [OF d taken fails, of None rest]
    HealthCheck_loop_timer [OF timer]
  by simp

text \<open>A run of the loop in which the ticks \<open>fs\<close> are taken and fail to dial, and the tick
  \<open>t\<close> is taken, dials and lists its partitions; and the only runs that end in the time-out.\<close>

lemma HealthCheck_loop_listing_succeeds:
  assumes "Dialer c = Some d" "select_tick (HealthcheckTimeout c) now n t"
    and "dial t = Inr conn" "readPartitions t = None"
  shows "HealthCheck_loop c now n err (t # rest) =
           (Returns None,
            [EvDial d network (BootstrapServers c), EvReadPartitions conn, EvConnClose conn,
             EvTickerStop])"
  using assms by simp

lemma HealthCheck_loop_succeeds:
  assumes d: "Dialer c = Some d"
    and taken: "ticks_taken (HealthcheckTimeout c) 0 0 (fs @ [t])"
    and fails: "\<forall>f \<in> set fs. dial_error f \<noteq> None"
    and t: "dial t = Inr conn" "readPartitions t = None"
  shows "HealthCheck_loop c 0 0 None (fs @ t # rest) =
           (Returns None,
            replicate (length fs) (EvDial d network (BootstrapServers c))
            @ [EvDial d network (BootstrapServers c), EvReadPartitions conn, EvConnClose conn,
               EvTickerStop])"
proof -
  from taken have 1: "ticks_taken (HealthcheckTimeout c) 0 0 fs"
    and 2: "select_tick (HealthcheckTimeout c) (loop_time 0 0 fs) (length fs) t"
    by (simp_all add: ticks_taken_append)
  show ?thesis
    using HealthCheck_loop_failed_dials [OF d 1 fails, of None "t # rest"]
      HealthCheck_loop_listing_succeeds [OF d 2 t]
    by simp
qed

lemma HealthCheck_loop_timed_out_only:
  assumes d: "Dialer c = Some d"
  shows "fst (HealthCheck_loop c now n err ticks) = Returns (Some (HealthCheckTimedOut ms e)) \<Longrightarrow>
         \<exists>fs rest. ticks = fs @ rest
           \<and> ticks_taken (HealthcheckTimeout c) now n fs
           \<and> (\<forall>f \<in> set fs. dial_error f \<noteq> None)
           \<and> timer_first (HealthcheckTimeout c) (loop_time now n fs) (n + length fs) rest
           \<and> ms = HealthcheckTimeout c
           \<and> e = (if fs = [] then err else dial_error (last fs))"
proof (induction ticks arbitrary: now n err)
  case Nil
  then have "ms = HealthcheckTimeout c \<and> e = err" by simp
  then show ?case by (simp add: timer_first_def)
next
  case (Cons t ts)
  show ?case
  proof (cases "select_tick (HealthcheckTimeout c) now n t")
    case False
    with Cons.prems have "ms = HealthcheckTimeout c \<and> e = err" by simp
    moreover have "timer_first (HealthcheckTimeout c) now n (t # ts)"
      using False by (simp add: timer_first_def)
    ultimately have "t # ts = [] @ (t # ts)
           \<and> ticks_taken (HealthcheckTimeout c) now n []
           \<and> (\<forall>f \<in> set []. dial_error f \<noteq> None)
           \<and> timer_first (HealthcheckTimeout c) (loop_time now n []) (n + length ([]::tick list)) (t # ts)
           \<and> ms = HealthcheckTimeout c
           \<and> e = (if ([]::tick list) = [] then err else dial_error (last []))"
      by simp
    then show ?thesis by blast
  next
    case True
    show ?thesis
    proof (cases "dial t")
      case (Inr conn)
      with True d Cons.prems show ?thesis
        by (simp split: option.splits)
    next
      case (Inl e')
      let ?now = "tick_ready now n t + took t"
      from Inl True d Cons.prems
      have "fst (HealthCheck_loop c ?now (n + 1) (Some e') ts) = Returns (Some (HealthCheckTimedOut ms e))"
        by (simp add: case_prod_unfold)
      from Cons.IH [OF this] obtain fs rest where r: "ts = fs @ rest"
        "ticks_taken (HealthcheckTimeout c) ?now (n + 1) fs"
        "\<forall>f \<in> set fs. dial_error f \<noteq> None"
        "timer_first (HealthcheckTimeout c) (loop_time ?now (n + 1) fs) (n + 1 + length fs) rest"
        "ms = HealthcheckTimeout c"
        "e = (if fs = [] then Some e' else dial_error (last fs))"
        by blast
      have de: "dial_error t = Some e'" using Inl by (simp add: dial_error_def)
      have "t # ts = (t # fs) @ rest
           \<and> ticks_taken (HealthcheckTimeout c) now n (t # fs)
           \<and> (\<forall>f \<in> set (t # fs). dial_error f \<noteq> None)
           \<and> timer_first (HealthcheckTimeout c) (loop_time now n (t # fs)) (n + length (t # fs)) rest
           \<and> ms = HealthcheckTimeout c
           \<and> e = (if t # fs = [] then err else dial_error (last (t # fs)))"
        using r True de by simp
      then show ?thesis by blast
    qed
  qed
qed

lemma HealthCheck_lookback_loop:
  assumes "fst (NewConnection k c) = None"
  shows "HealthCheck_lookback k c ticks =
          (fst (HealthCheck_loop (snd (NewConnection k c)) 0 0 None ticks),
           snd (NewConnection k c),
           snd (HealthCheck_loop (snd (NewConnection k c)) 0 0 None ticks))"
  using assms by (simp add: HealthCheck_lookback_def case_prod_unfold)

lemma HealthCheck_group_loop:
  assumes "fst (consumerInitialize k c) = None"
  shows "HealthCheck_group k c ticks =
          (fst (HealthCheck_loop (snd (consumerInitialize k c)) 0 0 None ticks),
           snd (consumerInitialize k c),
           snd (HealthCheck_loop (snd (consumerInitialize k c)) 0 0 None ticks))"
  using assms by (simp add: HealthCheck_group_def case_prod_unfold)

lemmas tick_defs =
  tick_refused_def tick_unlisted_def tick_listed_def select_tick_def tick_ready_def
  timeout_ready_def dial_error_def timer_first_def

text \<open>
  C2. In both revisions, in a run of \<^verbatim>\<open>HealthCheck\<close> whose builder returned nil: when the
  \<^verbatim>\<open>select\<close> takes the ticks \<open>fs\<close> and then the tick \<open>t\<close>, every tick of \<open>fs\<close> fails to dial,
  and \<open>t\<close> dials and fails to list its partitions with the error \<open>e\<close>, then the dial
  failures are swallowed (each leaves a dial in the events and the loop goes on to the next
  tick) and the check returns \<^verbatim>\<open>error reading partitions\<close> wrapping \<open>e\<close> at the tick \<open>t\<close>: whatever
  ticks \<open>rest\<close> would follow and whatever time is left to the deadline, nothing is called
  after the listing but the deferred \<^verbatim>\<open>Close\<close> and \<^verbatim>\<open>Stop\<close>.
\<close>

theorem HealthCheck_retries_dial_not_listing:
  assumes taken: "ticks_taken (HealthcheckTimeout c) 0 0 (fs @ [t])"
    and fails: "\<forall>f \<in> set fs. dial_error f \<noteq> None"
    and t: "dial t = Inr conn" "readPartitions t = Some e"
  shows "(fst (NewConnection k c) = None \<longrightarrow>
           (\<exists>d. Dialer (snd (NewConnection k c)) = Some d
              \<and> HealthCheck_lookback k c (fs @ t # rest) =
                  (Returns (Some (ErrorReadingPartitions e)), snd (NewConnection k c),
                   replicate (length fs) (EvDial d network (BootstrapServers c))
                   @ [EvDial d network (BootstrapServers c), EvReadPartitions conn,
                      EvConnClose conn, EvTickerStop])))
         \<and> (fst (consumerInitialize k c) = None \<longrightarrow>
           (\<exists>d. Dialer (snd (consumerInitialize k c)) = Some d
              \<and> HealthCheck_group k c (fs @ t # rest) =
                  (Returns (Some (ErrorReadingPartitions e)), snd (consumerInitialize k c),
                   replicate (length fs) (EvDial d network (BootstrapServers c))
                   @ [EvDial d network (BootstrapServers c), EvReadPartitions conn,
                      EvConnClose conn, EvTickerStop])))"
proof (intro conjI impI)
  assume ok: "fst (NewConnection k c) = None"
  let ?c = "snd (NewConnection k c)"
  from NewConnection_succeeds [OF ok] obtain d where d: "Dialer ?c = Some d"
    and ms: "HealthcheckTimeout ?c = HealthcheckTimeout c"
    and bs: "BootstrapServers ?c = BootstrapServers c"
    by blast
  from taken ms have taken': "ticks_taken (HealthcheckTimeout ?c) 0 0 (fs @ [t])"
    by simp
  have "HealthCheck_lookback k c (fs @ t # rest) =
          (fst (HealthCheck_loop ?c 0 0 None (fs @ t # rest)), ?c,
           snd (HealthCheck_loop ?c 0 0 None (fs @ t # rest)))"
    using ok by (simp add: HealthCheck_lookback_def case_prod_unfold)
  with HealthCheck_loop_listing_fatal [OF d taken' fails t, of rest] d bs
  show "\<exists>d. Dialer ?c = Some d
              \<and> HealthCheck_lookback k c (fs @ t # rest) =
                  (Returns (Some (ErrorReadingPartitions e)), ?c,
                   replicate (length fs) (EvDial d network (BootstrapServers c))
                   @ [EvDial d network (BootstrapServers c), EvReadPartitions conn,
                      EvConnClose conn, EvTickerStop])"
    by simp
next
  assume ok: "fst (consumerInitialize k c) = None"
  let ?c = "snd (consumerInitialize k c)"
  from consumerInitialize_succeeds [OF ok] obtain d where d: "Dialer ?c = Some d"
    and ms: "HealthcheckTimeout ?c = HealthcheckTimeout c"
    and bs: "BootstrapServers ?c = BootstrapServers c"
    by blast
  from taken ms have taken': "ticks_taken (HealthcheckTimeout ?c) 0 0 (fs @ [t])"
    by simp
  have "HealthCheck_group k c (fs @ t # rest) =
          (fst (HealthCheck_loop ?c 0 0 None (fs @ t # rest)), ?c,
           snd (HealthCheck_loop ?c 0 0 None (fs @ t # rest)))"
    using ok by (simp add: HealthCheck_group_def case_prod_unfold)
  with HealthCheck_loop_listing_fatal [OF d taken' fails t, of rest] d bs
  show "\<exists>d. Dialer ?c = Some d
              \<and> HealthCheck_group k c (fs @ t # rest) =
                  (Returns (Some (ErrorReadingPartitions e)), ?c,
                   replicate (length fs) (EvDial d network (BootstrapServers c))
                   @ [EvDial d network (BootstrapServers c), EvReadPartitions conn,
                      EvConnClose conn, EvTickerStop])"
    by simp
qed

theorem HealthCheck_retries_dial_not_listing_witness:
  "ticks_taken (HealthcheckTimeout example_client) 0 0
     ([tick_refused, tick_refused] @ [tick_unlisted])
   \<and> HealthCheck_lookback example_kafka example_client
        ([tick_refused, tick_refused] @ tick_unlisted # [tick_listed, tick_listed]) =
       (Returns (Some (ErrorReadingPartitions (LibError ''broken pipe''))),
        example_client\<lparr>Dialer := Some example_dialer\<rparr>,
        [EvDial example_dialer ''tcp'' ''broker-1:9092,broker-2:9092'',
         EvDial example_dialer ''tcp'' ''broker-1:9092,broker-2:9092'',
         EvDial example_dialer ''tcp'' ''broker-1:9092,broker-2:9092'',
         EvReadPartitions 9, EvConnClose 9, EvTickerStop])"
proof -
  have 1: "ticks_taken (HealthcheckTimeout example_client) 0 0
             ([tick_refused, tick_refused] @ [tick_unlisted])"
    by (simp add: tick_defs example_defs)
  have 2: "\<forall>f \<in> set [tick_refused, tick_refused]. dial_error f \<noteq> None"
    by (simp add: tick_defs)
  have 3: "dial tick_unlisted = Inr 9" "readPartitions tick_unlisted = Some (LibError ''broken pipe'')"
    by (simp_all add: tick_defs)
  have 4: "NewConnection example_kafka example_client =
             (None, example_client\<lparr>Dialer := Some example_dialer\<rparr>)"
    by (simp add: assign_defs example_defs)
  have 5: "BootstrapServers example_client = ''broker-1:9092,broker-2:9092''" "network = ''tcp''"
    by (simp_all add: example_defs)
  from HealthCheck_retries_dial_not_listing
         [OF 1 2 3, where k = example_kafka and rest = "[tick_listed, tick_listed]"] 1 4 5
  show ?thesis
    by simp
qed

text \<open>
  C7, as the claim states it, fails on a dial that is slow: the loop looks at the timer in
  its \<^verbatim>\<open>select\<close> only, so a dial that the tick of 200 ms starts before a deadline of 300 ms
  and that succeeds five seconds later, when the deadline has long elapsed, is followed by
  the listing, and the check returns nil in both revisions.
\<close>

theorem HealthCheck_slow_dial_outlives_deadline:
  "select_tick 300 0 0 tick_slow
   \<and> nat (sint (300 :: int32)) < tick_ready 0 0 tick_slow + took tick_slow
   \<and> HealthCheck_lookback example_kafka (example_client\<lparr>HealthcheckTimeout := 300\<rparr>) [tick_slow] =
       (Returns None,
        example_client\<lparr>HealthcheckTimeout := 300, Dialer := Some example_dialer\<rparr>,
        [EvDial example_dialer ''tcp'' ''broker-1:9092,broker-2:9092'',
         EvReadPartitions 9, EvConnClose 9, EvTickerStop])
   \<and> HealthCheck_group example_kafka (example_client\<lparr>HealthcheckTimeout := 300\<rparr>) [tick_slow] =
       (Returns None,
        example_client\<lparr>HealthcheckTimeout := 300,
          Dialer := Some (example_dialer\<lparr>TLS := Some \<lparr> MinVersion = 0 \<rparr>\<rparr>)\<rparr>,
        [EvDial (example_dialer\<lparr>TLS := Some \<lparr> MinVersion = 0 \<rparr>\<rparr>) ''tcp''
           ''broker-1:9092,broker-2:9092'',
         EvReadPartitions 9, EvConnClose 9, EvTickerStop])"
proof -
  let ?c = "example_client\<lparr>HealthcheckTimeout := 300\<rparr>"
  have 1: "select_tick 300 0 0 tick_slow"
    "nat (sint (300 :: int32)) < tick_ready 0 0 tick_slow + took tick_slow"
    by (simp_all add: tick_slow_def select_tick_def tick_ready_def timeout_ready_def)
  have 2: "NewConnection example_kafka ?c = (None, ?c\<lparr>Dialer := Some example_dialer\<rparr>)"
    "consumerInitialize example_kafka ?c =
       (None, ?c\<lparr>Dialer := Some (example_dialer\<lparr>TLS := Some \<lparr> MinVersion = 0 \<rparr>\<rparr>)\<rparr>)"
    by (simp_all add: assign_defs example_defs)
  have 3: "BootstrapServers ?c = ''broker-1:9092,broker-2:9092''" "network = ''tcp''"
    "dial tick_slow = Inr 9" "readPartitions tick_slow = None"
    by (simp_all add: example_defs tick_slow_def)
  have "HealthCheck_lookback example_kafka ?c [tick_slow] =
       (Returns None, ?c\<lparr>Dialer := Some example_dialer\<rparr>,
        [EvDial example_dialer ''tcp'' ''broker-1:9092,broker-2:9092'',
         EvReadPartitions 9, EvConnClose 9, EvTickerStop])"
    using 1 2 3 by (simp add: HealthCheck_lookback_def)
  moreover have "HealthCheck_group example_kafka ?c [tick_slow] =
       (Returns None, ?c\<lparr>Dialer := Some (example_dialer\<lparr>TLS := Some \<lparr> MinVersion = 0 \<rparr>\<rparr>)\<rparr>,
        [EvDial (example_dialer\<lparr>TLS := Some \<lparr> MinVersion = 0 \<rparr>\<rparr>) ''tcp''
           ''broker-1:9092,broker-2:9092'',
         EvReadPartitions 9, EvConnClose 9, EvTickerStop])"
    using 1 2 3 by (simp add: HealthCheck_group_def)
  ultimately show ?thesis
    using 1 by simp
qed

text \<open>
  C7, amended. In both revisions, in a run whose builder returned nil:
  \<^item> when the \<^verbatim>\<open>select\<close> takes the ticks \<open>fs\<close>, each of which fails to dial, and then takes
    the timer's case (the timer is ready before the next tick, or both are ready and the
    \<^verbatim>\<open>select\<close> chooses the timer, or no tick comes), the check returns
    \<^verbatim>\<open>health check timed out\<close> wrapping the error of the last dial, or nil when \<open>fs\<close> is
    empty, after one dial for each tick of \<open>fs\<close>;
  \<^item> when the time-out is below 200 ms the timer is ready before the first tick, whatever
    the ticks are: the check returns the time-out wrapping nil and the events hold no dial;
  \<^item> when the \<^verbatim>\<open>select\<close> takes the ticks \<open>fs\<close>, each of which fails to dial, and then the
    tick \<open>t\<close>, which dials and lists its partitions, the check returns nil, however long the
    dial and the listing of \<open>t\<close> take: the deadline does not interrupt them;
  \<^item> the check returns the time-out in no other run: a run of either revision that returns
    \<^verbatim>\<open>health check timed out\<close> is one in which the \<^verbatim>\<open>select\<close> took ticks that all failed to
    dial and then the timer's case, and the error wrapped is that of the last dial.
\<close>

theorem HealthCheck_time_out_wraps_last_dial_error:
  "(ticks_taken (HealthcheckTimeout c) 0 0 fs
    \<and> (\<forall>f \<in> set fs. dial_error f \<noteq> None)
    \<and> timer_first (HealthcheckTimeout c) (loop_time 0 0 fs) (length fs) rest \<longrightarrow>
      (fst (NewConnection k c) = None \<longrightarrow>
         (\<exists>d. Dialer (snd (NewConnection k c)) = Some d
            \<and> HealthCheck_lookback k c (fs @ rest) =
                (Returns (Some (HealthCheckTimedOut (HealthcheckTimeout c)
                                 (if fs = [] then None else dial_error (last fs)))),
                 snd (NewConnection k c),
                 replicate (length fs) (EvDial d network (BootstrapServers c))
                 @ [EvTickerStop])))
      \<and> (fst (consumerInitialize k c) = None \<longrightarrow>
         (\<exists>d. Dialer (snd (consumerInitialize k c)) = Some d
            \<and> HealthCheck_group k c (fs @ rest) =
                (Returns (Some (HealthCheckTimedOut (HealthcheckTimeout c)
                                 (if fs = [] then None else dial_error (last fs)))),
                 snd (consumerInitialize k c),
                 replicate (length fs) (EvDial d network (BootstrapServers c))
                 @ [EvTickerStop]))))
   \<and> (sint (HealthcheckTimeout c) < 200 \<longrightarrow>
        (fst (NewConnection k c) = None \<longrightarrow>
           HealthCheck_lookback k c ticks =
             (Returns (Some (HealthCheckTimedOut (HealthcheckTimeout c) None)),
              snd (NewConnection k c), [EvTickerStop]))
        \<and> (fst (consumerInitialize k c) = None \<longrightarrow>
           HealthCheck_group k c ticks =
             (Returns (Some (HealthCheckTimedOut (HealthcheckTimeout c) None)),
              snd (consumerInitialize k c), [EvTickerStop])))
   \<and> (ticks_taken (HealthcheckTimeout c) 0 0 (fs @ [t])
       \<and> (\<forall>f \<in> set fs. dial_error f \<noteq> None)
       \<and> dial t = Inr conn \<and> readPartitions t = None \<longrightarrow>
        (fst (NewConnection k c) = None \<longrightarrow>
           (\<exists>d. Dialer (snd (NewConnection k c)) = Some d
              \<and> HealthCheck_lookback k c (fs @ t # rest) =
                  (Returns None, snd (NewConnection k c),
                   replicate (length fs) (EvDial d network (BootstrapServers c))
                   @ [EvDial d network (BootstrapServers c), EvReadPartitions conn,
                      EvConnClose conn, EvTickerStop])))
        \<and> (fst (consumerInitialize k c) = None \<longrightarrow>
           (\<exists>d. Dialer (snd (consumerInitialize k c)) = Some d
              \<and> HealthCheck_group k c (fs @ t # rest) =
                  (Returns None, snd (consumerInitialize k c),
                   replicate (length fs) (EvDial d network (BootstrapServers c))
                   @ [EvDial d network (BootstrapServers c), EvReadPartitions conn,
                      EvConnClose conn, EvTickerStop]))))
   \<and> (fst (HealthCheck_lookback k c ticks) = Returns (Some (HealthCheckTimedOut ms e))
       \<or> fst (HealthCheck_group k c ticks) = Returns (Some (HealthCheckTimedOut ms e)) \<longrightarrow>
        (\<exists>gs more. ticks = gs @ more
           \<and> ticks_taken (HealthcheckTimeout c) 0 0 gs
           \<and> (\<forall>g \<in> set gs. dial_error g \<noteq> None)
           \<and> timer_first (HealthcheckTimeout c) (loop_time 0 0 gs) (length gs) more
           \<and> ms = HealthcheckTimeout c
           \<and> e = (if gs = [] then None else dial_error (last gs))))"
proof -
  have run: "\<exists>d. Dialer c' = Some d
            \<and> HealthCheck_loop c' 0 0 None (fs @ rest) =
                (Returns (Some (HealthCheckTimedOut (HealthcheckTimeout c)
                                 (if fs = [] then None else dial_error (last fs)))),
                 replicate (length fs) (EvDial d network (BootstrapServers c))
                 @ [EvTickerStop])"
    if taken: "ticks_taken (HealthcheckTimeout c) 0 0 fs"
      and fails: "\<forall>f \<in> set fs. dial_error f \<noteq> None"
      and timer: "timer_first (HealthcheckTimeout c) (loop_time 0 0 fs) (length fs) rest"
      and c': "\<exists>d. Dialer c' = Some d" "HealthcheckTimeout c' = HealthcheckTimeout c"
        "BootstrapServers c' = BootstrapServers c"
    for c'
  proof -
    from c' obtain d where d: "Dialer c' = Some d"
      by blast
    from HealthCheck_loop_times_out [OF d, of fs rest] taken fails timer c' d
    show ?thesis
      by simp
  qed
  have short: "HealthCheck_loop c' 0 0 None ticks =
                 (Returns (Some (HealthCheckTimedOut (HealthcheckTimeout c) None)), [EvTickerStop])"
    if "sint (HealthcheckTimeout c) < 200" "HealthcheckTimeout c' = HealthcheckTimeout c"
    for c'
    using HealthCheck_loop_timer [of c' 0 0 ticks None]
      short_deadline_timer_first [of "HealthcheckTimeout c'" ticks] that
    by simp
  have a: "\<exists>d. Dialer (snd (NewConnection k c)) = Some d
            \<and> HealthCheck_lookback k c (fs @ rest) =
                (Returns (Some (HealthCheckTimedOut (HealthcheckTimeout c)
                                 (if fs = [] then None else dial_error (last fs)))),
                 snd (NewConnection k c),
                 replicate (length fs) (EvDial d network (BootstrapServers c))
                 @ [EvTickerStop])"
    if "ticks_taken (HealthcheckTimeout c) 0 0 fs" "\<forall>f \<in> set fs. dial_error f \<noteq> None"
      "timer_first (HealthcheckTimeout c) (loop_time 0 0 fs) (length fs) rest"
      "fst (NewConnection k c) = None"
    using run [OF that(1-3) NewConnection_succeeds [OF that(4)]]
    by (auto simp: HealthCheck_lookback_loop [OF that(4)] split del: if_split)
  have b: "\<exists>d. Dialer (snd (consumerInitialize k c)) = Some d
            \<and> HealthCheck_group k c (fs @ rest) =
                (Returns (Some (HealthCheckTimedOut (HealthcheckTimeout c)
                                 (if fs = [] then None else dial_error (last fs)))),
                 snd (consumerInitialize k c),
                 replicate (length fs) (EvDial d network (BootstrapServers c))
                 @ [EvTickerStop])"
    if "ticks_taken (HealthcheckTimeout c) 0 0 fs" "\<forall>f \<in> set fs. dial_error f \<noteq> None"
      "timer_first (HealthcheckTimeout c) (loop_time 0 0 fs) (length fs) rest"
      "fst (consumerInitialize k c) = None"
    using run [OF that(1-3) consumerInitialize_succeeds [OF that(4)]]
    by (auto simp: HealthCheck_group_loop [OF that(4)] split del: if_split)
  have c: "HealthCheck_lookback k c ticks =
             (Returns (Some (HealthCheckTimedOut (HealthcheckTimeout c) None)),
              snd (NewConnection k c), [EvTickerStop])"
    if "sint (HealthcheckTimeout c) < 200" "fst (NewConnection k c) = None"
    using short [OF that(1) NewConnection_succeeds(2) [OF that(2)]]
    by (simp add: HealthCheck_lookback_loop [OF that(2)])
  have d: "HealthCheck_group k c ticks =
             (Returns (Some (HealthCheckTimedOut (HealthcheckTimeout c) None)),
              snd (consumerInitialize k c), [EvTickerStop])"
    if "sint (HealthcheckTimeout c) < 200" "fst (consumerInitialize k c) = None"
    using short [OF that(1) consumerInitialize_succeeds(2) [OF that(2)]]
    by (simp add: HealthCheck_group_loop [OF that(2)])
  have good: "\<exists>d. Dialer c' = Some d
            \<and> HealthCheck_loop c' 0 0 None (fs @ t # rest) =
                (Returns None,
                 replicate (length fs) (EvDial d network (BootstrapServers c))
                 @ [EvDial d network (BootstrapServers c), EvReadPartitions conn,
                    EvConnClose conn, EvTickerStop])"
    if taken: "ticks_taken (HealthcheckTimeout c) 0 0 (fs @ [t])"
      and fails: "\<forall>f \<in> set fs. dial_error f \<noteq> None"
      and t: "dial t = Inr conn" "readPartitions t = None"
      and c': "\<exists>d. Dialer c' = Some d" "HealthcheckTimeout c' = HealthcheckTimeout c"
        "BootstrapServers c' = BootstrapServers c"
    for c'
  proof -
    from c' obtain d where d: "Dialer c' = Some d"
      by blast
    from HealthCheck_loop_succeeds [OF d, of fs t conn rest] taken fails t c' d
    show ?thesis
      by simp
  qed
  have e: "\<exists>d. Dialer (snd (NewConnection k c)) = Some d
            \<and> HealthCheck_lookback k c (fs @ t # rest) =
                (Returns None, snd (NewConnection k c),
                 replicate (length fs) (EvDial d network (BootstrapServers c))
                 @ [EvDial d network (BootstrapServers c), EvReadPartitions conn,
                    EvConnClose conn, EvTickerStop])"
    if "ticks_taken (HealthcheckTimeout c) 0 0 (fs @ [t])" "\<forall>f \<in> set fs. dial_error f \<noteq> None"
      "dial t = Inr conn" "readPartitions t = None" "fst (NewConnection k c) = None"
    using good [OF that(1-4) NewConnection_succeeds [OF that(5)]]
    by (auto simp: HealthCheck_lookback_loop [OF that(5)])
  have f: "\<exists>d. Dialer (snd (consumerInitialize k c)) = Some d
            \<and> HealthCheck_group k c (fs @ t # rest) =
                (Returns None, snd (consumerInitialize k c),
                 replicate (length fs) (EvDial d network (BootstrapServers c))
                 @ [EvDial d network (BootstrapServers c), EvReadPartitions conn,
                    EvConnClose conn, EvTickerStop])"
    if "ticks_taken (HealthcheckTimeout c) 0 0 (fs @ [t])" "\<forall>f \<in> set fs. dial_error f \<noteq> None"
      "dial t = Inr conn" "readPartitions t = None" "fst (consumerInitialize k c) = None"
    using good [OF that(1-4) consumerInitialize_succeeds [OF that(5)]]
    by (auto simp: HealthCheck_group_loop [OF that(5)])
  have only: "\<exists>gs more. ticks = gs @ more
           \<and> ticks_taken (HealthcheckTimeout c) 0 0 gs
           \<and> (\<forall>g \<in> set gs. dial_error g \<noteq> None)
           \<and> timer_first (HealthcheckTimeout c) (loop_time 0 0 gs) (length gs) more
           \<and> ms = HealthcheckTimeout c
           \<and> e = (if gs = [] then None else dial_error (last gs))"
    if out: "fst (HealthCheck_loop c' 0 0 None ticks) = Returns (Some (HealthCheckTimedOut ms e))"
      and c': "\<exists>d. Dialer c' = Some d" "HealthcheckTimeout c' = HealthcheckTimeout c"
    for c'
  proof -
    from c' obtain d where d: "Dialer c' = Some d"
      by blast
    from HealthCheck_loop_timed_out_only [OF d out] c'(2) show ?thesis
      by simp
  qed
  have g: "\<exists>gs more. ticks = gs @ more
           \<and> ticks_taken (HealthcheckTimeout c) 0 0 gs
           \<and> (\<forall>g \<in> set gs. dial_error g \<noteq> None)
           \<and> timer_first (HealthcheckTimeout c) (loop_time 0 0 gs) (length gs) more
           \<and> ms = HealthcheckTimeout c
           \<and> e = (if gs = [] then None else dial_error (last gs))"
    if out: "fst (HealthCheck_lookback k c ticks) = Returns (Some (HealthCheckTimedOut ms e))"
  proof (cases "fst (NewConnection k c)")
    case None
    from out have "fst (HealthCheck_loop (snd (NewConnection k c)) 0 0 None ticks) =
                     Returns (Some (HealthCheckTimedOut ms e))"
      by (simp add: HealthCheck_lookback_loop [OF None])
    from only [OF this NewConnection_succeeds(1,2) [OF None]] show ?thesis .
  next
    case (Some e')
    with out show ?thesis
      by (simp add: HealthCheck_lookback_def case_prod_unfold)
  qed
  have h: "\<exists>gs more. ticks = gs @ more
           \<and> ticks_taken (HealthcheckTimeout c) 0 0 gs
           \<and> (\<forall>g \<in> set gs. dial_error g \<noteq> None)
           \<and> timer_first (HealthcheckTimeout c) (loop_time 0 0 gs) (length gs) more
           \<and> ms = HealthcheckTimeout c
           \<and> e = (if gs = [] then None else dial_error (last gs))"
    if out: "fst (HealthCheck_group k c ticks) = Returns (Some (HealthCheckTimedOut ms e))"
  proof (cases "fst (consumerInitialize k c)")
    case None
    from out have "fst (HealthCheck_loop (snd (consumerInitialize k c)) 0 0 None ticks) =
                     Returns (Some (HealthCheckTimedOut ms e))"
      by (simp add: HealthCheck_group_loop [OF None])
    from only [OF this consumerInitialize_succeeds(1,2) [OF None]] show ?thesis .
  next
    case (Some e')
    with out show ?thesis
      by (simp add: HealthCheck_group_def case_prod_unfold)
  qed
  from a b c d e f g h show ?thesis
    by blast
qed

theorem HealthCheck_time_out_wraps_last_dial_error_witness:
  "ticks_taken (HealthcheckTimeout example_client) 0 0
     [tick_refused, tick_refused, tick_refused, tick_refused]
   \<and> timer_first (HealthcheckTimeout example_client)
       (loop_time 0 0 [tick_refused, tick_refused, tick_refused, tick_refused])
       (length [tick_refused, tick_refused, tick_refused, tick_refused]) [tick_listed]
   \<and> HealthCheck_lookback example_kafka example_client
        ([tick_refused, tick_refused, tick_refused, tick_refused] @ [tick_listed]) =
       (Returns (Some (HealthCheckTimedOut 1000 (Some (LibError ''connection refused'')))),
        example_client\<lparr>Dialer := Some example_dialer\<rparr>,
        [EvDial example_dialer ''tcp'' ''broker-1:9092,broker-2:9092'',
         EvDial example_dialer ''tcp'' ''broker-1:9092,broker-2:9092'',
         EvDial example_dialer ''tcp'' ''broker-1:9092,broker-2:9092'',
         EvDial example_dialer ''tcp'' ''broker-1:9092,broker-2:9092'',
         EvTickerStop])
   \<and> sint (HealthcheckTimeout (example_client\<lparr>HealthcheckTimeout := 150\<rparr>)) < 200
   \<and> HealthCheck_lookback example_kafka (example_client\<lparr>HealthcheckTimeout := 150\<rparr>)
        [tick_listed] =
       (Returns (Some (HealthCheckTimedOut 150 None)),
        example_client\<lparr>HealthcheckTimeout := 150, Dialer := Some example_dialer\<rparr>,
        [EvTickerStop])
   \<and> ticks_taken (HealthcheckTimeout example_client) 0 0
       ([tick_refused, tick_refused] @ [tick_listed])
   \<and> HealthCheck_lookback example_kafka example_client
        ([tick_refused, tick_refused] @ tick_listed # [tick_refused]) =
       (Returns None,
        example_client\<lparr>Dialer := Some example_dialer\<rparr>,
        [EvDial example_dialer ''tcp'' ''broker-1:9092,broker-2:9092'',
         EvDial example_dialer ''tcp'' ''broker-1:9092,broker-2:9092'',
         EvDial example_dialer ''tcp'' ''broker-1:9092,broker-2:9092'',
         EvReadPartitions 9, EvConnClose 9, EvTickerStop])"
proof -
  let ?fs = "[tick_refused, tick_refused, tick_refused, tick_refused]"
  let ?gs = "[tick_refused, tick_refused]"
  let ?c = "example_client\<lparr>HealthcheckTimeout := 150\<rparr>"
  have 1: "ticks_taken (HealthcheckTimeout example_client) 0 0 ?fs"
    by (simp add: tick_defs example_defs)
  have 2: "\<forall>f \<in> set ?fs. dial_error f \<noteq> None" "\<forall>f \<in> set ?gs. dial_error f \<noteq> None"
    by (simp_all add: tick_defs)
  have 3: "timer_first (HealthcheckTimeout example_client) (loop_time 0 0 ?fs) (length ?fs)
             [tick_listed]"
    by (simp add: tick_defs example_defs)
  have 4: "NewConnection example_kafka example_client =
             (None, example_client\<lparr>Dialer := Some example_dialer\<rparr>)"
    "NewConnection example_kafka ?c = (None, ?c\<lparr>Dialer := Some example_dialer\<rparr>)"
    by (simp_all add: assign_defs example_defs)
  have 5: "BootstrapServers example_client = ''broker-1:9092,broker-2:9092''" "network = ''tcp''"
    "HealthcheckTimeout example_client = 1000"
    "dial_error tick_refused = Some (LibError ''connection refused'')"
    by (simp_all add: example_defs tick_defs)
  have 6: "sint (HealthcheckTimeout ?c) < 200"
    by simp
  have 7: "ticks_taken (HealthcheckTimeout example_client) 0 0 (?gs @ [tick_listed])"
    by (simp add: tick_defs example_defs)
  have 8: "dial tick_listed = Inr 9" "readPartitions tick_listed = None"
    by (simp_all add: tick_defs)
  from HealthCheck_time_out_wraps_last_dial_error
         [where c = example_client and k = example_kafka and fs = ?fs and rest = "[tick_listed]"]
       1 2 3 4 5
  have a: "HealthCheck_lookback example_kafka example_client (?fs @ [tick_listed]) =
       (Returns (Some (HealthCheckTimedOut 1000 (Some (LibError ''connection refused'')))),
        example_client\<lparr>Dialer := Some example_dialer\<rparr>,
        [EvDial example_dialer ''tcp'' ''broker-1:9092,broker-2:9092'',
         EvDial example_dialer ''tcp'' ''broker-1:9092,broker-2:9092'',
         EvDial example_dialer ''tcp'' ''broker-1:9092,broker-2:9092'',
         EvDial example_dialer ''tcp'' ''broker-1:9092,broker-2:9092'',
         EvTickerStop])"
    by simp
  from HealthCheck_time_out_wraps_last_dial_error
         [where c = ?c and k = example_kafka and ticks = "[tick_listed]"]
       4 6
  have b: "HealthCheck_lookback example_kafka ?c [tick_listed] =
       (Returns (Some (HealthCheckTimedOut 150 None)),
        ?c\<lparr>Dialer := Some example_dialer\<rparr>, [EvTickerStop])"
    by simp
  from HealthCheck_time_out_wraps_last_dial_error
         [where c = example_client and k = example_kafka and fs = ?gs and t = tick_listed
            and conn = 9 and rest = "[tick_refused]"]
       2 4 5 7 8
  have c: "HealthCheck_lookback example_kafka example_client (?gs @ tick_listed # [tick_refused]) =
       (Returns None,
        example_client\<lparr>Dialer := Some example_dialer\<rparr>,
        [EvDial example_dialer ''tcp'' ''broker-1:9092,broker-2:9092'',
         EvDial example_dialer ''tcp'' ''broker-1:9092,broker-2:9092'',
         EvDial example_dialer ''tcp'' ''broker-1:9092,broker-2:9092'',
         EvReadPartitions 9, EvConnClose 9, EvTickerStop])"
    by simp
  from 1 3 6 7 a b c show ?thesis
    by simp
qed

end
